theory Spec2Isabelle
  imports Complex_Main "HOL-Library.AList" "HOL-Library.Sublist"
begin

section \<open>JavaScript string operations used by the analyzer\<close>

text \<open>
  Strings are lists of 8-bit characters, read as the code units \<open>U+0000\<close> to \<open>U+00FF\<close>.
  \<open>String.prototype.toLowerCase\<close> maps the letters \<open>A\<close>..\<open>Z\<close> and the accented capitals
  \<open>U+00C0\<close>..\<open>U+00DE\<close> (the multiplication sign \<open>U+00D7\<close> is no letter) to their lower-case
  forms, 32 code units further. \<open>String.prototype.trim\<close> strips tab, line feed, vertical
  tab, form feed, carriage return, blank and the no-break space \<open>U+00A0\<close>, the white space
  and line terminators of the language in this range.
\<close>

definition upperLetters :: string where
  "upperLetters =
     ''ABCDEFGHIJKLMNOPQRSTUVWXYZ'' @
     [CHR 0xC0, CHR 0xC1, CHR 0xC2, CHR 0xC3, CHR 0xC4, CHR 0xC5, CHR 0xC6, CHR 0xC7,
      CHR 0xC8, CHR 0xC9, CHR 0xCA, CHR 0xCB, CHR 0xCC, CHR 0xCD, CHR 0xCE, CHR 0xCF,
      CHR 0xD0, CHR 0xD1, CHR 0xD2, CHR 0xD3, CHR 0xD4, CHR 0xD5, CHR 0xD6, CHR 0xD8,
      CHR 0xD9, CHR 0xDA, CHR 0xDB, CHR 0xDC, CHR 0xDD, CHR 0xDE]"

definition lowerLetters :: string where
  "lowerLetters =
     ''abcdefghijklmnopqrstuvwxyz'' @
     [CHR 0xE0, CHR 0xE1, CHR 0xE2, CHR 0xE3, CHR 0xE4, CHR 0xE5, CHR 0xE6, CHR 0xE7,
      CHR 0xE8, CHR 0xE9, CHR 0xEA, CHR 0xEB, CHR 0xEC, CHR 0xED, CHR 0xEE, CHR 0xEF,
      CHR 0xF0, CHR 0xF1, CHR 0xF2, CHR 0xF3, CHR 0xF4, CHR 0xF5, CHR 0xF6, CHR 0xF8,
      CHR 0xF9, CHR 0xFA, CHR 0xFB, CHR 0xFC, CHR 0xFD, CHR 0xFE]"

definition toLowerChar :: "char \<Rightarrow> char" where
  "toLowerChar c = (case map_of (zip upperLetters lowerLetters) c of Some d \<Rightarrow> d | None \<Rightarrow> c)"

definition toLowerCase :: "string \<Rightarrow> string" where
  "toLowerCase s = map toLowerChar s"

text \<open>The DOM and the selector language compare and convert names in ASCII only: the
  letters \<open>A\<close>..\<open>Z\<close> and \<open>a\<close>..\<open>z\<close>.\<close>

definition asciiLowerChar :: "char \<Rightarrow> char" where
  "asciiLowerChar c =
     (case map_of (zip ''ABCDEFGHIJKLMNOPQRSTUVWXYZ'' ''abcdefghijklmnopqrstuvwxyz'') c of
        Some d \<Rightarrow> d | None \<Rightarrow> c)"

definition asciiUpperChar :: "char \<Rightarrow> char" where
  "asciiUpperChar c =
     (case map_of (zip ''abcdefghijklmnopqrstuvwxyz'' ''ABCDEFGHIJKLMNOPQRSTUVWXYZ'') c of
        Some d \<Rightarrow> d | None \<Rightarrow> c)"

definition asciiLowerCase :: "string \<Rightarrow> string" where
  "asciiLowerCase s = map asciiLowerChar s"

definition asciiUpperCase :: "string \<Rightarrow> string" where
  "asciiUpperCase s = map asciiUpperChar s"

definition isSpace :: "char \<Rightarrow> bool" where
  "isSpace c =
     (c \<in> set [CHR 0x09, CHR 0x0A, CHR 0x0B, CHR 0x0C, CHR 0x0D, CHR '' '', CHR 0xA0])"

definition trim :: "string \<Rightarrow> string" where
  "trim s = rev (dropWhile isSpace (rev (dropWhile isSpace s)))"

text \<open>\<open>s.substring(0, n)\<close>.\<close>

definition substring0 :: "nat \<Rightarrow> string \<Rightarrow> string" where
  "substring0 n s = take n s"

text \<open>\<open>s.split(c)\<close> for a one-character separator: never empty, \<open>''''.split(' ') = ['''']\<close>.\<close>

fun split_str :: "char \<Rightarrow> string \<Rightarrow> string list" where
  "split_str c [] = [[]]"
| "split_str c (x # xs) =
     (if x = c then [] # split_str c xs
      else (case split_str c xs of
              [] \<Rightarrow> [[x]]
            | w # ws \<Rightarrow> (x # w) # ws))"

text \<open>\<open>parts.join(sep)\<close>.\<close>

fun join_str :: "string \<Rightarrow> string list \<Rightarrow> string" where
  "join_str sep [] = []"
| "join_str sep [w] = w"
| "join_str sep (w # v # ws) = w @ sep @ join_str sep (v # ws)"

fun startsWith :: "string \<Rightarrow> string \<Rightarrow> bool" where
  "startsWith s [] = True"
| "startsWith [] (p # ps) = False"
| "startsWith (c # s) (p # ps) = (c = p \<and> startsWith s ps)"

text \<open>\<open>s.includes(p)\<close>.\<close>

fun str_includes :: "string \<Rightarrow> string \<Rightarrow> bool" where
  "str_includes [] p = (p = [])"
| "str_includes (c # s) p = (startsWith (c # s) p \<or> str_includes s p)"

text \<open>\<open>s.replace(/p/, r)\<close> for a literal pattern without the global flag: the first
  occurrence only.\<close>

fun replaceFirst :: "string \<Rightarrow> string \<Rightarrow> string \<Rightarrow> string" where
  "replaceFirst p r [] = (if p = [] then r else [])"
| "replaceFirst p r (c # s) =
     (if startsWith (c # s) p then r @ drop (length p) (c # s)
      else c # replaceFirst p r s)"

text \<open>\<open>s.replace(/[cs]/g, '')\<close>: every character of the class is deleted.\<close>

definition removeChars :: "string \<Rightarrow> string \<Rightarrow> string" where
  "removeChars cs s = filter (\<lambda>c. c \<notin> set cs) s"

text \<open>\<open>s.replace(/[cs]/g, r)\<close> with a one-character replacement.\<close>

definition replaceChars :: "string \<Rightarrow> char \<Rightarrow> string \<Rightarrow> string" where
  "replaceChars cs r s = map (\<lambda>c. if c \<in> set cs then r else c) s"

text \<open>JavaScript truthiness of a string: the empty string is falsy.\<close>

definition truthy :: "string \<Rightarrow> bool" where
  "truthy s = (s \<noteq> [])"

section \<open>The rendered document\<close>

text \<open>
  A page, once rendered, is a tree of elements. Each node carries what the browser
  reports for that element: its name and namespace, its attributes, the text of its
  subtree, its bounding box, its computed style and its scroll extent, and the IDL
  properties the asset inventory reads.
\<close>

record rect =
  rect_x :: real
  rect_y :: real
  rect_width :: real
  rect_height :: real
  rect_top :: real
  rect_right :: real
  rect_bottom :: real
  rect_left :: real

text \<open>
  A \<open>CSSStyleDeclaration\<close>: \<open>computed[i]\<close> for \<open>i < computed.length\<close> enumerates
  \<open>propertyNames\<close>, and \<open>computed.getPropertyValue(p)\<close> is \<open>propertyValue\<close>, the empty string
  for an unknown property. A camel-case accessor such as \<open>computed.backgroundColor\<close> reads
  the property of the corresponding dashed name.
\<close>

record computed_style =
  propertyNames :: "string list"
  propertyValue :: "string \<Rightarrow> string"

datatype namespace = HTML_NS | SVG_NS | Other_NS

record node =
  localName :: string
  nodeNamespace :: namespace
  attributes :: "(string \<times> string) list"
  textContent :: string
  boundingClientRect :: rect
  computedStyle :: computed_style
  scrollWidth :: int
  scrollHeight :: int
  idlString :: "string \<Rightarrow> string"
  idlNumber :: "string \<Rightarrow> int"
  idlBool :: "string \<Rightarrow> bool"

datatype tree = Tree node "tree list"

text \<open>
  An element object, as script sees it: its identity (the child positions leading from
  the root to it), the node, its parent element (\<open>None\<close> for the root, whose parent node
  is the document) and its child elements' subtrees.
\<close>

datatype element =
  Element (ident: "nat list") (elNode: node) (parentElement: "element option")
    (elChildren: "tree list")

text \<open>\<open>document.querySelectorAll('*')\<close>: every element, in document order.\<close>

fun elementsFrom :: "element option \<Rightarrow> nat list \<Rightarrow> tree \<Rightarrow> element list"
  and childrenFrom :: "element option \<Rightarrow> nat list \<Rightarrow> nat \<Rightarrow> tree list \<Rightarrow> element list"
where
  "elementsFrom par p (Tree n cs) =
     Element p n par cs # childrenFrom (Some (Element p n par cs)) p 0 cs"
| "childrenFrom par p i [] = []"
| "childrenFrom par p i (c # cs) =
     elementsFrom par (p @ [i]) c @ childrenFrom par p (Suc i) cs"

definition allElements :: "tree \<Rightarrow> element list" where
  "allElements doc = elementsFrom None [] doc"

text \<open>Attribute access; \<open>el.id\<close> and \<open>el.className\<close> reflect the attributes.\<close>

definition getAttribute :: "element \<Rightarrow> string \<Rightarrow> string option" where
  "getAttribute e a = map_of (attributes (elNode e)) a"

definition elementId :: "element \<Rightarrow> string" where
  "elementId e = (case getAttribute e ''id'' of Some v \<Rightarrow> v | None \<Rightarrow> [])"

text \<open>On an SVG element \<open>className\<close> is an \<open>SVGAnimatedString\<close> object, not a string.\<close>

datatype class_name = ClassString string | SVGAnimatedString string

definition className :: "element \<Rightarrow> class_name" where
  "className e =
     (let v = (case getAttribute e ''class'' of Some v \<Rightarrow> v | None \<Rightarrow> [])
      in if nodeNamespace (elNode e) = SVG_NS then SVGAnimatedString v else ClassString v)"

text \<open>\<open>el.className && typeof el.className === 'string'\<close>, with the string when it holds.\<close>

definition classNameString :: "element \<Rightarrow> string option" where
  "classNameString e =
     (case className e of
        ClassString s \<Rightarrow> (if truthy s then Some s else None)
      | SVGAnimatedString s \<Rightarrow> None)"

text \<open>\<open>el.tagName\<close> and \<open>el.nodeName\<close>: upper case for an HTML element.\<close>

definition tagName :: "element \<Rightarrow> string" where
  "tagName e =
     (if nodeNamespace (elNode e) = HTML_NS then asciiUpperCase (localName (elNode e))
      else localName (elNode e))"

definition computed :: "element \<Rightarrow> string \<Rightarrow> string" where
  "computed e p = propertyValue (computedStyle (elNode e)) p"

text \<open>Identity of element objects (\<open>===\<close>): two elements of one document are the same
  object exactly when they stand at the same place in the tree.\<close>

definition sameElement :: "element \<Rightarrow> element \<Rightarrow> bool" where
  "sameElement a b = (ident a = ident b)"

text \<open>\<open>document.documentElement\<close> and \<open>document.body\<close>: the body is the first child of
  the \<open>html\<close> root that is a \<open>body\<close> or a \<open>frameset\<close>; there is none otherwise.\<close>

fun documentElement :: "tree \<Rightarrow> element" where
  "documentElement (Tree n cs) = Element [] n None cs"

definition isBodyElement :: "element \<Rightarrow> bool" where
  "isBodyElement e =
     (nodeNamespace (elNode e) = HTML_NS \<and> localName (elNode e) \<in> set [''body'', ''frameset''])"

definition isChildOf :: "element \<Rightarrow> element \<Rightarrow> bool" where
  "isChildOf e a = (case parentElement e of None \<Rightarrow> False | Some q \<Rightarrow> sameElement q a)"

definition documentBody :: "tree \<Rightarrow> element option" where
  "documentBody doc =
     (let root = documentElement doc in
      if nodeNamespace (elNode root) = HTML_NS \<and> localName (elNode root) = ''html''
      then find (\<lambda>e. isChildOf e root \<and> isBodyElement e) (allElements doc)
      else None)"

section \<open>Errors\<close>

text \<open>The exceptions that reach the analyzer, each with its message.\<close>

datatype error =
    NavigationTimeout string
  | NavigationError string
  | SyntaxError string
  | TypeError string
  | LaunchError string

fun errorMessage :: "error \<Rightarrow> string" where
  "errorMessage (NavigationTimeout m) = m"
| "errorMessage (NavigationError m) = m"
| "errorMessage (SyntaxError m) = m"
| "errorMessage (TypeError m) = m"
| "errorMessage (LaunchError m) = m"

section \<open>The selector engine\<close>

text \<open>
  The browser's \<open>querySelectorAll\<close>, for the part of the selector language the analyzer
  writes: a type selector or \<open>*\<close>, attribute tests \<open>[a]\<close>, \<open>[a="v"]\<close> and \<open>[a*="v"]\<close>, the
  descendant combinator and comma-separated lists. Any other string is rejected with a
  \<open>SyntaxError\<close>, as the browser rejects a malformed selector.
\<close>

datatype attr_test = HasAttr string | AttrEquals string string | AttrContains string string

type_synonym compound = "string option \<times> attr_test list"

datatype pmode =
    PStart | PType | PAfter | PAttrName string | PAttrStar string
  | PAttrQuote string bool | PAttrVal string bool string | PAttrEnd attr_test | PGap

type_synonym pstate = "pmode \<times> compound \<times> compound list \<times> compound list list"

text \<open>White space of the selector language: blank, tab, line feed, form feed and
  carriage return.\<close>

definition isCssSpace :: "char \<Rightarrow> bool" where
  "isCssSpace c = (c \<in> set [CHR '' '', CHR 0x09, CHR 0x0A, CHR 0x0C, CHR 0x0D])"

definition isNameStart :: "char \<Rightarrow> bool" where
  "isNameStart c =
     (c \<in> set ''abcdefghijklmnopqrstuvwxyzABCDEFGHIJKLMNOPQRSTUVWXYZ_-'')"

definition isNameChar :: "char \<Rightarrow> bool" where
  "isNameChar c = (isNameStart c \<or> c \<in> set ''0123456789'')"

definition dquote :: char where
  "dquote = CHR 0x22"

fun addAttr :: "compound \<Rightarrow> attr_test \<Rightarrow> compound" where
  "addAttr (t, ts) a = (t, ts @ [a])"

fun addTypeChar :: "compound \<Rightarrow> char \<Rightarrow> compound" where
  "addTypeChar (None, ts) c = (Some [c], ts)"
| "addTypeChar (Some t, ts) c = (Some (t @ [c]), ts)"

fun pstep :: "pstate \<Rightarrow> char \<Rightarrow> pstate option" where
  "pstep (PStart, cur, chain, fin) c =
     (if isCssSpace c then Some (PStart, cur, chain, fin)
      else if c = CHR ''*'' then Some (PAfter, (None, []), chain, fin)
      else if c = CHR ''['' then Some (PAttrName [], (None, []), chain, fin)
      else if isNameStart c then Some (PType, (Some [c], []), chain, fin)
      else None)"
| "pstep (PType, cur, chain, fin) c =
     (if isNameChar c then Some (PType, addTypeChar cur c, chain, fin)
      else if c = CHR ''['' then Some (PAttrName [], cur, chain, fin)
      else if isCssSpace c then Some (PGap, cur, chain, fin)
      else if c = CHR '','' then Some (PStart, (None, []), [], fin @ [chain @ [cur]])
      else None)"
| "pstep (PAfter, cur, chain, fin) c =
     (if c = CHR ''['' then Some (PAttrName [], cur, chain, fin)
      else if isCssSpace c then Some (PGap, cur, chain, fin)
      else if c = CHR '','' then Some (PStart, (None, []), [], fin @ [chain @ [cur]])
      else None)"
| "pstep (PAttrName a, cur, chain, fin) c =
     (if isNameChar c then Some (PAttrName (a @ [c]), cur, chain, fin)
      else if a = [] then None
      else if c = CHR '']'' then Some (PAfter, addAttr cur (HasAttr a), chain, fin)
      else if c = CHR ''='' then Some (PAttrQuote a False, cur, chain, fin)
      else if c = CHR ''*'' then Some (PAttrStar a, cur, chain, fin)
      else None)"
| "pstep (PAttrStar a, cur, chain, fin) c =
     (if c = CHR ''='' then Some (PAttrQuote a True, cur, chain, fin) else None)"
| "pstep (PAttrQuote a sub, cur, chain, fin) c =
     (if c = dquote then Some (PAttrVal a sub [], cur, chain, fin) else None)"
| "pstep (PAttrVal a sub v, cur, chain, fin) c =
     (if c = dquote
      then Some (PAttrEnd (if sub then AttrContains a v else AttrEquals a v), cur, chain, fin)
      else Some (PAttrVal a sub (v @ [c]), cur, chain, fin))"
| "pstep (PAttrEnd t, cur, chain, fin) c =
     (if c = CHR '']'' then Some (PAfter, addAttr cur t, chain, fin) else None)"
| "pstep (PGap, cur, chain, fin) c =
     (if isCssSpace c then Some (PGap, cur, chain, fin)
      else if c = CHR '','' then Some (PStart, (None, []), [], fin @ [chain @ [cur]])
      else if c = CHR ''*'' then Some (PAfter, (None, []), chain @ [cur], fin)
      else if c = CHR ''['' then Some (PAttrName [], (None, []), chain @ [cur], fin)
      else if isNameStart c then Some (PType, (Some [c], []), chain @ [cur], fin)
      else None)"

fun prun :: "pstate \<Rightarrow> string \<Rightarrow> pstate option" where
  "prun st [] = Some st"
| "prun st (c # s) = (case pstep st c of None \<Rightarrow> None | Some st' \<Rightarrow> prun st' s)"

fun pfinish :: "pstate \<Rightarrow> compound list list option" where
  "pfinish (PType, cur, chain, fin) = Some (fin @ [chain @ [cur]])"
| "pfinish (PAfter, cur, chain, fin) = Some (fin @ [chain @ [cur]])"
| "pfinish (PGap, cur, chain, fin) = Some (fin @ [chain @ [cur]])"
| "pfinish (m, cur, chain, fin) = None"

definition parseSelector :: "string \<Rightarrow> compound list list option" where
  "parseSelector s =
     (case prun (PStart, (None, []), [], []) s of None \<Rightarrow> None | Some st \<Rightarrow> pfinish st)"

text \<open>
  Matching. In an HTML document the type and attribute names of a selector are compared
  case-insensitively against an HTML element (whose names the parser lowercased), and
  the values of the attributes of the HTML standard's legacy list are too.
\<close>

definition legacyCaseInsensitive :: "string list" where
  "legacyCaseInsensitive =
     [''accept'', ''accept-charset'', ''align'', ''alink'', ''axis'', ''bgcolor'', ''charset'',
      ''checked'', ''clear'', ''codetype'', ''color'', ''compact'', ''declare'', ''defer'', ''dir'',
      ''direction'', ''disabled'', ''enctype'', ''face'', ''frame'', ''hreflang'', ''http-equiv'',
      ''lang'', ''language'', ''link'', ''media'', ''method'', ''multiple'', ''nohref'',
      ''noresize'', ''noshade'', ''nowrap'', ''readonly'', ''rel'', ''rev'', ''rules'', ''scope'',
      ''scrolling'', ''selected'', ''shape'', ''target'', ''text'', ''type'', ''valign'',
      ''valuetype'', ''vlink'']"

definition selName :: "element \<Rightarrow> string \<Rightarrow> string" where
  "selName e a = (if nodeNamespace (elNode e) = HTML_NS then asciiLowerCase a else a)"

definition selValue :: "element \<Rightarrow> string \<Rightarrow> string \<Rightarrow> string" where
  "selValue e a v =
     (if nodeNamespace (elNode e) = HTML_NS \<and> selName e a \<in> set legacyCaseInsensitive
      then asciiLowerCase v else v)"

fun attrMatches :: "attr_test \<Rightarrow> element \<Rightarrow> bool" where
  "attrMatches (HasAttr a) e = (getAttribute e (selName e a) \<noteq> None)"
| "attrMatches (AttrEquals a v) e =
     (case getAttribute e (selName e a) of
        None \<Rightarrow> False
      | Some w \<Rightarrow> selValue e a w = selValue e a v)"
| "attrMatches (AttrContains a v) e =
     (case getAttribute e (selName e a) of
        None \<Rightarrow> False
      | Some w \<Rightarrow> v \<noteq> [] \<and> str_includes (selValue e a w) (selValue e a v))"

fun compoundMatches :: "compound \<Rightarrow> element \<Rightarrow> bool" where
  "compoundMatches (t, ts) e =
     ((case t of None \<Rightarrow> True | Some n \<Rightarrow> selName e n = localName (elNode e))
      \<and> list_all (\<lambda>a. attrMatches a e) ts)"

text \<open>A descendant chain, innermost compound first, against an element and its ancestors.\<close>

fun matchesUp :: "compound list \<Rightarrow> element \<Rightarrow> bool"
  and ancestorMatches :: "compound list \<Rightarrow> element option \<Rightarrow> bool"
where
  "matchesUp [] e = True"
| "matchesUp (c # cs) (Element i n par k) =
     (compoundMatches c (Element i n par k) \<and> (cs = [] \<or> ancestorMatches cs par))"
| "ancestorMatches cs None = False"
| "ancestorMatches cs (Some (Element i n par k)) =
     (matchesUp cs (Element i n par k) \<or> ancestorMatches cs par)"

definition selectorMatches :: "compound list list \<Rightarrow> element \<Rightarrow> bool" where
  "selectorMatches sels e = list_ex (\<lambda>chain. matchesUp (rev chain) e) sels"

definition querySelectorAll :: "tree \<Rightarrow> string \<Rightarrow> error + element list" where
  "querySelectorAll doc s =
     (case parseSelector s of
        None \<Rightarrow> Inl (SyntaxError s)
      | Some sels \<Rightarrow> Inr (filter (selectorMatches sels) (allElements doc)))"

text \<open>\<open>document.querySelector\<close>: the first match, or \<open>null\<close>.\<close>

definition querySelector :: "tree \<Rightarrow> string \<Rightarrow> error + element option" where
  "querySelector doc s =
     (case querySelectorAll doc s of
        Inl err \<Rightarrow> Inl err
      | Inr [] \<Rightarrow> Inr None
      | Inr (e # es) \<Rightarrow> Inr (Some e))"

section \<open>Style Token Collector\<close>

text \<open>A JavaScript \<open>Set\<close> of strings keeps its members in insertion order, each once;
  \<open>Array.from\<close> lists them in that order.\<close>

definition setAdd :: "'a \<Rightarrow> 'a list \<Rightarrow> 'a list" where
  "setAdd v s = (if v \<in> set s then s else s @ [v])"

definition addIf :: "bool \<Rightarrow> 'a \<Rightarrow> 'a list \<Rightarrow> 'a list" where
  "addIf b v s = (if b then setAdd v s else s)"

record design_tokens =
  dt_colors :: "string list"
  dt_fonts :: "string list"
  dt_spacing :: "string list"
  dt_borderRadius :: "string list"
  dt_boxShadows :: "string list"
  dt_gradients :: "string list"

definition emptyTokens :: design_tokens where
  "emptyTokens =
     \<lparr>dt_colors = [], dt_fonts = [], dt_spacing = [], dt_borderRadius = [],
      dt_boxShadows = [], dt_gradients = []\<rparr>"

definition transparent :: string where
  "transparent = ''rgba(0, 0, 0, 0)''"

definition marginValues :: "element \<Rightarrow> string list" where
  "marginValues el =
     [computed el ''margin-top'', computed el ''margin-right'',
      computed el ''margin-bottom'', computed el ''margin-left'']"

definition paddingValues :: "element \<Rightarrow> string list" where
  "paddingValues el =
     [computed el ''padding-top'', computed el ''padding-right'',
      computed el ''padding-bottom'', computed el ''padding-left'']"

definition addSpacing :: "string \<Rightarrow> string list \<Rightarrow> string list" where
  "addSpacing val s = addIf (truthy val \<and> val \<noteq> ''0px'') val s"

text \<open>The body of \<open>elements.forEach\<close>: the six sets are updated independently.\<close>

definition tokenStep :: "element \<Rightarrow> design_tokens \<Rightarrow> design_tokens" where
  "tokenStep el tokens =
     (let color = computed el ''color'';
          backgroundColor = computed el ''background-color'';
          borderColor = computed el ''border-color'';
          fontFamily = computed el ''font-family'';
          fontWeight = computed el ''font-weight'';
          borderRadius = computed el ''border-radius'';
          boxShadow = computed el ''box-shadow'';
          backgroundImage = computed el ''background-image''
      in \<lparr>dt_colors =
            addIf (truthy borderColor \<and> borderColor \<noteq> transparent) borderColor
              (addIf (truthy backgroundColor \<and> backgroundColor \<noteq> transparent) backgroundColor
                (addIf (truthy color \<and> color \<noteq> transparent) color (dt_colors tokens))),
          dt_fonts = addIf (truthy fontFamily) (fontFamily @ '' '' @ fontWeight) (dt_fonts tokens),
          dt_spacing =
            fold addSpacing (paddingValues el) (fold addSpacing (marginValues el) (dt_spacing tokens)),
          dt_borderRadius =
            addIf (truthy borderRadius \<and> borderRadius \<noteq> ''0px'') borderRadius
              (dt_borderRadius tokens),
          dt_boxShadows =
            addIf (truthy boxShadow \<and> boxShadow \<noteq> ''none'') boxShadow (dt_boxShadows tokens),
          dt_gradients =
            addIf (truthy backgroundImage \<and> str_includes backgroundImage ''gradient'')
              backgroundImage (dt_gradients tokens)\<rparr>)"

definition collectDesignTokens :: "tree \<Rightarrow> error + design_tokens" where
  "collectDesignTokens doc =
     (case querySelectorAll doc ''*'' of
        Inl err \<Rightarrow> Inl err
      | Inr elements \<Rightarrow> Inr (fold tokenStep elements emptyTokens))"

section \<open>Element Snapshot Collector\<close>

record element_record =
  er_index :: nat
  er_tagName :: string
  er_id :: "string option"
  er_classes :: "string list"
  er_textContent :: "string option"
  er_geometry :: rect
  er_cssStyles :: "string \<rightharpoonup> string"
  er_selector :: string
  er_parentIndex :: "int option"
  er_childCount :: nat
  er_attributes :: "string \<rightharpoonup> string"

text \<open>One step of the selector path: the lowercased node name, then, for a non-empty
  string class name, a dot and the non-empty class tokens joined by dots.\<close>

definition selectorStep :: "element \<Rightarrow> string" where
  "selectorStep element =
     toLowerCase (tagName element) @
     (case classNameString element of
        None \<Rightarrow> []
      | Some cn \<Rightarrow> ''.'' @ join_str ''.'' (filter truthy (split_str CHR '' '' cn)))"

text \<open>The \<open>while\<close> loop of \<open>generateSelector\<close>: \<open>path.unshift(selector)\<close>, then on to
  \<open>element.parentNode\<close>, until the parent is no element (the document).\<close>

fun selectorPath :: "element option \<Rightarrow> string list \<Rightarrow> string list" where
  "selectorPath None path = path"
| "selectorPath (Some (Element i n par cs)) path =
     selectorPath par (selectorStep (Element i n par cs) # path)"

definition isDocumentBody :: "tree \<Rightarrow> element \<Rightarrow> bool" where
  "isDocumentBody doc element =
     (case documentBody doc of None \<Rightarrow> False | Some b \<Rightarrow> sameElement element b)"

definition generateSelector :: "tree \<Rightarrow> element \<Rightarrow> string" where
  "generateSelector doc element =
     (if truthy (elementId element) then ''#'' @ elementId element
      else if isDocumentBody doc element then ''body''
      else join_str '' > '' (selectorPath (Some element) []))"

text \<open>\<open>Array.prototype.indexOf\<close> on elements: the first position holding the same
  object, or \<open>-1\<close>.\<close>

fun indexOf :: "element list \<Rightarrow> element \<Rightarrow> int" where
  "indexOf [] e = - 1"
| "indexOf (x # xs) e =
     (if sameElement x e then 0
      else (let r = indexOf xs e in if r < 0 then - 1 else r + 1))"

definition cssStylesOf :: "element \<Rightarrow> (string \<rightharpoonup> string)" where
  "cssStylesOf el =
     fold (\<lambda>prop styles. styles(prop \<mapsto> computed el prop))
       (propertyNames (computedStyle (elNode el))) Map.empty"

text \<open>\<open>attrs[attr.name] = attr.value\<close> on a plain object: the assignment to \<open>__proto__\<close>
  goes to the setter of \<open>Object.prototype\<close>, which ignores a string, and makes no entry.\<close>

definition attributesOf :: "element \<Rightarrow> (string \<rightharpoonup> string)" where
  "attributesOf el =
     fold (\<lambda>(name, val) attrs. if name = ''__proto__'' then attrs else attrs(name \<mapsto> val))
       (attributes (elNode el)) Map.empty"

text \<open>The record pushed for the element at position \<open>index\<close>; \<open>allElements\<close> is the
  \<open>querySelectorAll('*')\<close> list, which the parent lookup queries again from the unchanged
  document.\<close>

definition elementData :: "tree \<Rightarrow> element list \<Rightarrow> nat \<times> element \<Rightarrow> element_record" where
  "elementData doc allEls ie =
     (case ie of (index, el) \<Rightarrow>
       \<lparr>er_index = index,
        er_tagName = toLowerCase (tagName el),
        er_id = (if truthy (elementId el) then Some (elementId el) else None),
        er_classes =
          (case classNameString el of
             None \<Rightarrow> []
           | Some cn \<Rightarrow> filter truthy (split_str CHR '' '' cn)),
        er_textContent =
          (if truthy (textContent (elNode el))
           then Some (substring0 200 (trim (textContent (elNode el)))) else None),
        er_geometry = boundingClientRect (elNode el),
        er_cssStyles = cssStylesOf el,
        er_selector = generateSelector doc el,
        er_parentIndex =
          (case parentElement el of
             None \<Rightarrow> None
           | Some parent \<Rightarrow> Some (indexOf allEls parent)),
        er_childCount = length (elChildren el),
        er_attributes = attributesOf el\<rparr>)"

definition collectElementData :: "tree \<Rightarrow> error + element_record list" where
  "collectElementData doc =
     (case querySelectorAll doc ''*'' of
        Inl err \<Rightarrow> Inl err
      | Inr allEls \<Rightarrow> Inr (map (elementData doc allEls) (enumerate 0 allEls)))"

section \<open>Metadata and performance\<close>

text \<open>
  One view of a loaded page: its document and what the browser reports besides, the
  title, the user agent, the window height and the performance timeline, together with
  the clock reading at that moment. A property of a timeline entry that is missing reads
  \<open>None\<close>.
\<close>

record page =
  pg_document :: tree
  pg_title :: string
  pg_userAgent :: string
  pg_innerHeight :: int
  pg_timestamp :: string
  pg_navigationEntries :: "(string \<Rightarrow> real option) list"
  pg_paintEntries :: "(string \<times> real option) list"
  pg_resourceCount :: nat

text \<open>
  A loaded page is live: its scripts and pending loads go on changing the document while
  the analyzer works, and \<open>page.goto\<close> waits for \<open>domcontentloaded\<close> only. Every
  \<open>page.evaluate\<close>, \<open>page.title\<close> and \<open>page.$eval\<close> is a round trip of its own and sees the
  page as it is when it runs. A live page gives the view of each round trip, counted from
  the navigation. One analysis pass makes eleven of them, in this order.
\<close>

type_synonym live_page = "nat \<Rightarrow> page"

abbreviation (input) countTrip :: nat where "countTrip \<equiv> 0"
abbreviation (input) depthTrip :: nat where "depthTrip \<equiv> 1"
abbreviation (input) userAgentTrip :: nat where "userAgentTrip \<equiv> 2"
abbreviation (input) titleTrip :: nat where "titleTrip \<equiv> 3"
abbreviation (input) descriptionTrip :: nat where "descriptionTrip \<equiv> 4"
abbreviation (input) performanceTrip :: nat where "performanceTrip \<equiv> 5"
abbreviation (input) tokensTrip :: nat where "tokensTrip \<equiv> 6"
abbreviation (input) elementsTrip :: nat where "elementsTrip \<equiv> 7"
abbreviation (input) layoutTrip :: nat where "layoutTrip \<equiv> 8"
abbreviation (input) assetsTrip :: nat where "assetsTrip \<equiv> 9"
abbreviation (input) patternsTrip :: nat where "patternsTrip \<equiv> 10"

record viewport =
  vp_name :: "string option"
  vp_width :: nat
  vp_height :: nat

record performance =
  pf_domContentLoaded :: real
  pf_loadComplete :: real
  pf_firstPaint :: real
  pf_firstContentfulPaint :: real
  pf_resourceCount :: nat

record metadata =
  md_url :: string
  md_timestamp :: string
  md_viewport :: viewport
  md_loadTime :: int
  md_elementCount :: nat
  md_domDepth :: nat
  md_userAgent :: string
  md_title :: string
  md_description :: "string option"
  md_performance :: "performance option"

text \<open>\<open>getDepth\<close>, with the running maximum passed along.\<close>

fun getDepth :: "tree \<Rightarrow> nat \<Rightarrow> nat \<Rightarrow> nat" where
  "getDepth (Tree n cs) depth maxDepth =
     fold (\<lambda>child m. getDepth child (depth + 1) m) cs (max maxDepth depth)"

text \<open>The \<open>TypeError\<close> of reading a property of \<open>null\<close>.\<close>

definition nullAccess :: error where
  "nullAccess = TypeError ''Cannot read properties of null''"

definition domDepth :: "tree \<Rightarrow> error + nat" where
  "domDepth doc =
     (case documentBody doc of
        None \<Rightarrow> Inl nullAccess
      | Some body \<Rightarrow> Inr (getDepth (Tree (elNode body) (elChildren body)) 0 0))"

text \<open>\<open>page.$eval(sel, el => el.content).catch(() => null)\<close>: the \<open>content\<close> of the
  first match; no match, or a failing query, gives \<open>null\<close>.\<close>

definition metaDescription :: "tree \<Rightarrow> string option" where
  \<open>metaDescription doc =
     (case querySelector doc ''meta[name="description"]'' of
        Inl err \<Rightarrow> None
      | Inr None \<Rightarrow> None
      | Inr (Some el) \<Rightarrow> Some (idlString (elNode el) ''content''))\<close>

text \<open>\<open>collectMetadata\<close> makes five round trips: the element count, the depth, then,
  while the metadata literal is built, the user agent, the title and the description.
  The time stamp is taken just before the third.\<close>

definition collectMetadata :: "live_page \<Rightarrow> string \<Rightarrow> viewport \<Rightarrow> int \<Rightarrow> error + metadata" where
  "collectMetadata lp url vp loadTime =
     (case querySelectorAll (pg_document (lp countTrip)) ''*'' of
        Inl err \<Rightarrow> Inl err
      | Inr els \<Rightarrow>
          (case domDepth (pg_document (lp depthTrip)) of
             Inl err \<Rightarrow> Inl err
           | Inr depth \<Rightarrow>
               Inr \<lparr>md_url = url, md_timestamp = pg_timestamp (lp userAgentTrip),
                    md_viewport = vp, md_loadTime = loadTime, md_elementCount = length els,
                    md_domDepth = depth, md_userAgent = pg_userAgent (lp userAgentTrip),
                    md_title = pg_title (lp titleTrip),
                    md_description = metaDescription (pg_document (lp descriptionTrip)),
                    md_performance = None\<rparr>))"

text \<open>Number arithmetic where an operand may be \<open>undefined\<close>: the difference is then
  \<open>NaN\<close> (\<open>None\<close>), and \<open>v || 0\<close> turns \<open>NaN\<close>, \<open>undefined\<close> and \<open>0\<close> into \<open>0\<close>.\<close>

fun jsMinus :: "real option \<Rightarrow> real option \<Rightarrow> real option" where
  "jsMinus (Some a) (Some b) = Some (a - b)"
| "jsMinus a b = None"

fun orZero :: "real option \<Rightarrow> real" where
  "orZero None = 0"
| "orZero (Some v) = v"

definition entryProp :: "(string \<Rightarrow> real option) list \<Rightarrow> string \<Rightarrow> real option" where
  "entryProp entries p = (case entries of [] \<Rightarrow> None | perfData # rest \<Rightarrow> perfData p)"

definition paintStart :: "(string \<times> real option) list \<Rightarrow> string \<Rightarrow> real option" where
  "paintStart entries name =
     (case find (\<lambda>p. fst p = name) entries of None \<Rightarrow> None | Some p \<Rightarrow> snd p)"

definition collectPerformanceMetrics :: "page \<Rightarrow> performance" where
  "collectPerformanceMetrics pg =
     (let nav = pg_navigationEntries pg in
      \<lparr>pf_domContentLoaded =
         orZero (jsMinus (entryProp nav ''domContentLoadedEventEnd'') (entryProp nav ''navigationStart'')),
       pf_loadComplete =
         orZero (jsMinus (entryProp nav ''loadEventEnd'') (entryProp nav ''navigationStart'')),
       pf_firstPaint = orZero (paintStart (pg_paintEntries pg) ''first-paint''),
       pf_firstContentfulPaint = orZero (paintStart (pg_paintEntries pg) ''first-contentful-paint''),
       pf_resourceCount = pg_resourceCount pg\<rparr>)"

section \<open>Layout Landmark Analyzer\<close>

text \<open>
  The section records are JavaScript object literals. An object is an association list
  in insertion order; in a literal that names a key twice the later value replaces the
  earlier one at the earlier key's place.
\<close>

datatype jvalue = JBool bool | JNum real | JStr string | JObj "(string \<times> jvalue) list"

definition objectLiteral :: "(string \<times> jvalue) list \<Rightarrow> (string \<times> jvalue) list" where
  "objectLiteral props = fold (\<lambda>(k, v) obj. AList.update k v obj) props []"

text \<open>\<open>document.querySelector(a) || document.querySelector(b)\<close>.\<close>

definition firstOf :: "tree \<Rightarrow> string \<Rightarrow> string \<Rightarrow> error + element option" where
  "firstOf doc a b =
     (case querySelector doc a of
        Inl err \<Rightarrow> Inl err
      | Inr (Some el) \<Rightarrow> Inr (Some el)
      | Inr None \<Rightarrow> querySelector doc b)"

definition sectionInfo :: "element option \<Rightarrow> (string \<times> jvalue) list" where
  "sectionInfo element =
     (case element of
        Some el \<Rightarrow>
          (let rect = boundingClientRect (elNode el) in
           objectLiteral
             [(''exists'', JBool True),
              (''dimensions'',
                 JObj (objectLiteral [(''width'', JNum (rect_width rect)),
                                      (''height'', JNum (rect_height rect))])),
              (''position'',
                 JObj (objectLiteral [(''x'', JNum (rect_x rect)), (''y'', JNum (rect_y rect))])),
              (''display'', JStr (computed el ''display'')),
              (''position'', JStr (computed el ''position''))])
      | None \<Rightarrow> objectLiteral [(''exists'', JBool False)])"

record layout_types =
  lt_grid :: nat
  lt_flex :: nat

record layout =
  ly_pageHeight :: int
  ly_pageWidth :: int
  ly_sections :: "(string \<times> (string \<times> jvalue) list) list"
  ly_layoutTypes :: layout_types
  ly_scrollable :: bool

text \<open>The five landmark lookups, in the order of the \<open>sections\<close> literal.\<close>

definition landmarkSelectors :: "(string \<times> string \<times> string) list" where
  \<open>landmarkSelectors =
     [(''header'', ''header'', ''[role="banner"]''),
      (''nav'', ''nav'', ''[role="navigation"]''),
      (''main'', ''main'', ''[role="main"]''),
      (''aside'', ''aside'', ''[role="complementary"]''),
      (''footer'', ''footer'', ''[role="contentinfo"]'')]\<close>

fun findSections ::
  "tree \<Rightarrow> (string \<times> string \<times> string) list \<Rightarrow> error + (string \<times> element option) list"
where
  "findSections doc [] = Inr []"
| "findSections doc ((key, a, b) # rest) =
     (case firstOf doc a b of
        Inl err \<Rightarrow> Inl err
      | Inr element \<Rightarrow>
          (case findSections doc rest of
             Inl err \<Rightarrow> Inl err
           | Inr found \<Rightarrow> Inr ((key, element) # found)))"

definition collectLayoutStructure :: "page \<Rightarrow> error + layout" where
  \<open>collectLayoutStructure pg =
     (let doc = pg_document pg; html = documentElement doc in
      case findSections doc landmarkSelectors of
        Inl err \<Rightarrow> Inl err
      | Inr sections \<Rightarrow>
          (let sectionInfos =
                 fold (\<lambda>(key, element) info. AList.update key (sectionInfo element) info)
                   sections []
           in case querySelectorAll doc ''[style*="grid"], [class*="grid"]'' of
                Inl err \<Rightarrow> Inl err
              | Inr grid \<Rightarrow>
                  (case querySelectorAll doc ''[style*="flex"], [class*="flex"]'' of
                     Inl err \<Rightarrow> Inl err
                   | Inr flex \<Rightarrow>
                       (case documentBody doc of
                          None \<Rightarrow> Inl nullAccess
                        | Some body \<Rightarrow>
                            Inr \<lparr>ly_pageHeight =
                                   max (scrollHeight (elNode body)) (scrollHeight (elNode html)),
                                 ly_pageWidth =
                                   max (scrollWidth (elNode body)) (scrollWidth (elNode html)),
                                 ly_sections = sectionInfos,
                                 ly_layoutTypes = \<lparr>lt_grid = length grid, lt_flex = length flex\<rparr>,
                                 ly_scrollable =
                                   (scrollHeight (elNode body) > pg_innerHeight pg)\<rparr>))))\<close>

section \<open>Asset Inventory Collector\<close>

record image_asset =
  img_src :: string
  img_alt :: "string option"
  img_width :: real
  img_height :: real
  img_naturalWidth :: int
  img_naturalHeight :: int
  img_loading :: string

record stylesheet_asset =
  css_href :: string
  css_media :: string
  css_disabled :: bool

record script_asset =
  js_src :: string
  js_async :: bool
  js_defer :: bool
  js_type :: string

record background_image =
  bg_url :: string
  bg_element :: string
  bg_selector :: string

record assets =
  as_images :: "image_asset list"
  as_fonts :: "string list"
  as_stylesheets :: "stylesheet_asset list"
  as_scripts :: "script_asset list"
  as_backgroundImages :: "background_image list"

definition orDefault :: "string \<Rightarrow> string \<Rightarrow> string" where
  "orDefault v d = (if truthy v then v else d)"

definition imageOf :: "element \<Rightarrow> image_asset" where
  "imageOf img =
     \<lparr>img_src = idlString (elNode img) ''src'',
      img_alt = (if truthy (idlString (elNode img) ''alt'')
                 then Some (idlString (elNode img) ''alt'') else None),
      img_width = rect_width (boundingClientRect (elNode img)),
      img_height = rect_height (boundingClientRect (elNode img)),
      img_naturalWidth = idlNumber (elNode img) ''naturalWidth'',
      img_naturalHeight = idlNumber (elNode img) ''naturalHeight'',
      img_loading = orDefault (idlString (elNode img) ''loading'') ''eager''\<rparr>"

definition stylesheetOf :: "element \<Rightarrow> stylesheet_asset" where
  "stylesheetOf link =
     \<lparr>css_href = idlString (elNode link) ''href'',
      css_media = orDefault (idlString (elNode link) ''media'') ''all'',
      css_disabled = idlBool (elNode link) ''disabled''\<rparr>"

definition scriptOf :: "element \<Rightarrow> script_asset" where
  "scriptOf script =
     \<lparr>js_src = idlString (elNode script) ''src'',
      js_async = idlBool (elNode script) ''async'',
      js_defer = idlBool (elNode script) ''defer'',
      js_type = orDefault (idlString (elNode script) ''type'') ''text/javascript''\<rparr>"

text \<open>The regular expression \<open>url\(["']?([^"')]+)["']?\)\<close>: an attempt at the start of a
  string, then the leftmost position where the attempt succeeds.\<close>

definition quoteChars :: "char list" where
  "quoteChars = [dquote, CHR 0x27]"

definition skipQuote :: "string \<Rightarrow> string" where
  "skipQuote s = (case s of [] \<Rightarrow> [] | c # r \<Rightarrow> if c \<in> set quoteChars then r else c # r)"

definition urlAt :: "string \<Rightarrow> string option" where
  "urlAt s =
     (if startsWith s ''url('' then
        (let body = skipQuote (drop 4 s);
             inside = (\<lambda>c. c \<notin> set (quoteChars @ '')''));
             u = takeWhile inside body;
             rest = skipQuote (dropWhile inside body)
         in if u \<noteq> [] \<and> startsWith rest '')'' then Some u else None)
      else None)"

fun matchUrl :: "string \<Rightarrow> string option" where
  "matchUrl [] = None"
| "matchUrl (c # s) = (case urlAt (c # s) of Some u \<Rightarrow> Some u | None \<Rightarrow> matchUrl s)"

definition firstToken :: "string \<Rightarrow> string" where
  "firstToken cn = (case split_str CHR '' '' cn of [] \<Rightarrow> [] | w # ws \<Rightarrow> w)"

definition backgroundStep :: "element \<Rightarrow> background_image list \<Rightarrow> background_image list" where
  "backgroundStep el backgroundImages =
     (let bgImage = computed el ''background-image'' in
      if truthy bgImage \<and> bgImage \<noteq> ''none'' \<and> str_includes bgImage ''url(''
      then (case matchUrl bgImage of
              None \<Rightarrow> backgroundImages
            | Some u \<Rightarrow>
                backgroundImages @
                [\<lparr>bg_url = u,
                  bg_element = toLowerCase (tagName el),
                  bg_selector =
                    (if truthy (elementId el) then ''#'' @ elementId el
                     else (case classNameString el of
                             Some cn \<Rightarrow> ''.'' @ firstToken cn
                           | None \<Rightarrow> toLowerCase (tagName el)))\<rparr>])
      else backgroundImages)"

definition collectAssets :: "tree \<Rightarrow> error + assets" where
  \<open>collectAssets doc =
     (case querySelectorAll doc ''img'' of
        Inl err \<Rightarrow> Inl err
      | Inr imgs \<Rightarrow>
          (case querySelectorAll doc ''link[rel="stylesheet"]'' of
             Inl err \<Rightarrow> Inl err
           | Inr links \<Rightarrow>
               (case querySelectorAll doc ''script[src]'' of
                  Inl err \<Rightarrow> Inl err
                | Inr scripts \<Rightarrow>
                    (case querySelectorAll doc ''*'' of
                       Inl err \<Rightarrow> Inl err
                     | Inr els \<Rightarrow>
                         Inr \<lparr>as_images = map imageOf imgs,
                              as_fonts = [],
                              as_stylesheets = map stylesheetOf links,
                              as_scripts = map scriptOf scripts,
                              as_backgroundImages = fold backgroundStep els []\<rparr>))))\<close>

section \<open>Pattern Recognizer\<close>

record dimensions =
  dim_width :: real
  dim_height :: real

record variation =
  var_index :: nat
  var_classes :: "string list"
  var_dimensions :: dimensions
  var_textContent :: "string option"
  var_backgroundColor :: string
  var_color :: string

record component =
  cp_selector :: string
  cp_count :: nat
  cp_variations :: "variation list"

record pattern =
  pt_name :: string
  pt_selector :: string
  pt_count :: nat
  pt_variations :: "variation list"

definition componentSelectors :: "string list" where
  \<open>componentSelectors =
     [''button'', ''[class*="button"]'', ''[class*="btn"]'',
      ''card'', ''[class*="card"]'',
      ''[class*="nav"]'', ''nav li'',
      ''[class*="modal"]'', ''[class*="dialog"]'',
      ''[class*="form"]'', ''form'',
      ''[class*="header"]'', ''[class*="footer"]'',
      ''[class*="item"]'', ''[class*="component"]'']\<close>

text \<open>\<open>selector.replace(/[\[\]"*=]/g, '').replace(/class/, '')\<close>.\<close>

definition componentName :: "string \<Rightarrow> string" where
  \<open>componentName selector = replaceFirst ''class'' [] (removeChars ''[]"*='' selector)\<close>

definition variationOf :: "nat \<times> element \<Rightarrow> variation" where
  "variationOf ie =
     (case ie of (index, el) \<Rightarrow>
       \<lparr>var_index = index,
        var_classes =
          (case classNameString el of None \<Rightarrow> [] | Some cn \<Rightarrow> split_str CHR '' '' cn),
        var_dimensions =
          \<lparr>dim_width = rect_width (boundingClientRect (elNode el)),
           dim_height = rect_height (boundingClientRect (elNode el))\<rparr>,
        var_textContent =
          (if truthy (textContent (elNode el))
           then Some (substring0 50 (trim (textContent (elNode el)))) else None),
        var_backgroundColor = computed el ''background-color'',
        var_color = computed el ''color''\<rparr>)"

text \<open>
  The body of \<open>componentSelectors.forEach\<close>, with its \<open>try\<close>/\<open>catch\<close>: \<open>query\<close> is the
  document's \<open>querySelectorAll\<close>, and \<open>components\<close> the \<open>Map\<close> from names to components
  (\<open>Map.set\<close> replaces the value of a key already present and keeps its place).
\<close>

definition patternStep ::
  "(string \<Rightarrow> error + element list) \<Rightarrow> string \<Rightarrow> (string \<times> component) list
     \<Rightarrow> (string \<times> component) list"
where
  "patternStep query selector components =
     (case query selector of
        Inl err \<Rightarrow> components
      | Inr elements \<Rightarrow>
          if length elements > 1
          then AList.update (componentName selector)
                 \<lparr>cp_selector = selector, cp_count = length elements,
                  cp_variations = map variationOf (enumerate 0 elements)\<rparr>
                 components
          else components)"

definition patternOf :: "string \<times> component \<Rightarrow> pattern" where
  "patternOf entry =
     (case entry of (name, data) \<Rightarrow>
       \<lparr>pt_name = name, pt_selector = cp_selector data, pt_count = cp_count data,
        pt_variations = cp_variations data\<rparr>)"

text \<open>The recognizer over any query function and any catalog, and the analyzer's own:
  the document's \<open>querySelectorAll\<close> and the fixed catalog.\<close>

definition recognizePatterns ::
  "(string \<Rightarrow> error + element list) \<Rightarrow> string list \<Rightarrow> pattern list"
where
  "recognizePatterns query catalog = map patternOf (fold (patternStep query) catalog [])"

definition identifyComponentPatterns :: "tree \<Rightarrow> pattern list" where
  "identifyComponentPatterns doc = recognizePatterns (querySelectorAll doc) componentSelectors"

section \<open>The analyzer: render session, orchestrator and assembler\<close>

record responsive_entry =
  re_viewport :: viewport
  re_elementCount :: nat
  re_layoutStructure :: "layout option"
  re_designTokens :: design_tokens

text \<open>\<open>this.analysisData\<close>. The metadata and the layout start as the empty object
  (\<open>None\<close>); \<open>responsive\<close> is an object keyed by viewport name.\<close>

record analysis_data =
  ad_metadata :: "metadata option"
  ad_designTokens :: design_tokens
  ad_layout :: "layout option"
  ad_elements :: "element_record list"
  ad_assets :: assets
  ad_componentPatterns :: "pattern list"
  ad_responsive :: "(string \<times> responsive_entry) list"

definition initialAnalysisData :: analysis_data where
  "initialAnalysisData =
     \<lparr>ad_metadata = None, ad_designTokens = emptyTokens, ad_layout = None, ad_elements = [],
      ad_assets = \<lparr>as_images = [], as_fonts = [], as_stylesheets = [], as_scripts = [],
                   as_backgroundImages = []\<rparr>,
      ad_componentPatterns = [], ad_responsive = []\<rparr>"

text \<open>
  The analyzer object together with the part of the world it acts on: whether the
  browser is launched, the browsing contexts that are open, the console and the error
  stream (messages without the time prefix), the directories made and the files written.
\<close>

record analyzer =
  an_browser :: bool
  an_analysisData :: analysis_data
  an_openContexts :: "nat list"
  an_nextContext :: nat
  an_console :: "string list"
  an_stderr :: "string list"
  an_dirs :: "string list"
  an_files :: "(string \<times> analysis_data) list"

text \<open>
  What the analyzer cannot decide: whether the browser launches, what the navigation of
  each browsing context yields (a live page, or the error of \<open>page.goto\<close>) and how long
  it took, the host name of a URL (\<open>None\<close> when \<open>new URL\<close> throws), the clock reading when
  the results are saved, the script's directory and the resolution of a path.
\<close>

record env =
  env_launch :: "error option"
  env_goto :: "nat \<Rightarrow> string \<Rightarrow> viewport \<Rightarrow> error + live_page"
  env_loadTime :: "nat \<Rightarrow> int"
  env_hostname :: "string \<Rightarrow> string option"
  env_now :: string
  env_dirname :: string
  env_resolve :: "string \<Rightarrow> string"

text \<open>\<open>this.log(message)\<close>: one more line on the console.\<close>

definition logLine :: "string \<Rightarrow> analyzer \<Rightarrow> analyzer" where
  "logLine message st = st\<lparr>an_console := an_console st @ [message]\<rparr>"

definition digitChar :: "nat \<Rightarrow> char" where
  "digitChar n = ''0123456789'' ! (n mod 10)"

function showNat :: "nat \<Rightarrow> string" where
  "showNat n = (if n < 10 then [digitChar n] else showNat (n div 10) @ [digitChar n])"
  by pat_completeness auto
termination
  by (relation "measure id") auto

declare showNat.simps [simp del]

text \<open>One collector call inside \<open>analyzePage\<close>: the collector logs, evaluates in the
  page and assigns its result; an exception leaves the data as they are.\<close>

definition stage ::
  "string \<Rightarrow> (analysis_data \<Rightarrow> error + analysis_data) \<Rightarrow> (error + unit) \<times> analyzer
     \<Rightarrow> (error + unit) \<times> analyzer"
where
  "stage message collect rs =
     (case rs of
        (Inl err, st) \<Rightarrow> (Inl err, st)
      | (Inr u, st) \<Rightarrow>
          (let st' = logLine message st in
           case collect (an_analysisData st') of
             Inl err \<Rightarrow> (Inl err, st')
           | Inr d \<Rightarrow> (Inr (), st'\<lparr>an_analysisData := d\<rparr>)))"

definition withResult :: "error + 'a \<Rightarrow> ('a \<Rightarrow> analysis_data) \<Rightarrow> error + analysis_data" where
  "withResult r assign = (case r of Inl err \<Rightarrow> Inl err | Inr v \<Rightarrow> Inr (assign v))"

definition setPerformance :: "performance \<Rightarrow> metadata option \<Rightarrow> metadata option" where
  "setPerformance metrics md = map_option (\<lambda>m. m\<lparr>md_performance := Some metrics\<rparr>) md"

text \<open>The seven collector calls of \<open>analyzePage\<close>, each on the view of its own round
  trip. The term is nested, so it reads from the bottom: \<open>collectMetadata\<close> runs first
  and \<open>identifyComponentPatterns\<close> last.\<close>

definition runCollectors ::
  "live_page \<Rightarrow> string \<Rightarrow> viewport \<Rightarrow> int \<Rightarrow> analyzer \<Rightarrow> (error + unit) \<times> analyzer"
where
  "runCollectors lp url vp loadTime st =
     stage ''Identifying component patterns...''
       (\<lambda>d. Inr (d\<lparr>ad_componentPatterns :=
                    identifyComponentPatterns (pg_document (lp patternsTrip))\<rparr>))
    (stage ''Collecting asset inventory...''
       (\<lambda>d. withResult (collectAssets (pg_document (lp assetsTrip))) (\<lambda>v. d\<lparr>ad_assets := v\<rparr>))
    (stage ''Analyzing layout structure...''
       (\<lambda>d. withResult (collectLayoutStructure (lp layoutTrip)) (\<lambda>v. d\<lparr>ad_layout := Some v\<rparr>))
    (stage ''Collecting detailed element data...''
       (\<lambda>d. withResult (collectElementData (pg_document (lp elementsTrip)))
              (\<lambda>v. d\<lparr>ad_elements := v\<rparr>))
    (stage ''Extracting design tokens...''
       (\<lambda>d. withResult (collectDesignTokens (pg_document (lp tokensTrip)))
              (\<lambda>v. d\<lparr>ad_designTokens := v\<rparr>))
    (stage ''Collecting performance metrics...''
       (\<lambda>d. Inr (d\<lparr>ad_metadata :=
                    setPerformance (collectPerformanceMetrics (lp performanceTrip)) (ad_metadata d)\<rparr>))
    (stage ''Collecting metadata...''
       (\<lambda>d. withResult (collectMetadata lp url vp loadTime) (\<lambda>v. d\<lparr>ad_metadata := Some v\<rparr>))
       (Inr (), st)))))))"

text \<open>
  \<open>analyzePage\<close>: a new browsing context, then \<open>try\<close> (navigation and the collectors),
  \<open>catch\<close> (log and rethrow), \<open>finally\<close> (close the context). Without a launched browser
  \<open>this.browser.newContext\<close> throws before the \<open>try\<close>; with one, creating the context and
  its page is taken to succeed. The route handler lets every request continue and
  changes nothing; the load time is the time the navigation took.
\<close>

definition analyzePage :: "env \<Rightarrow> analyzer \<Rightarrow> string \<Rightarrow> viewport \<Rightarrow> (error + unit) \<times> analyzer" where
  "analyzePage e st url vp =
     (let st1 = logLine (''Analyzing '' @ url @ '' at '' @ showNat (vp_width vp) @ ''x''
                       @ showNat (vp_height vp)) st
      in if \<not> an_browser st1 then (Inl nullAccess, st1)
         else
           (let ctx = an_nextContext st1;
                st2 = st1\<lparr>an_openContexts := an_openContexts st1 @ [ctx],
                          an_nextContext := Suc ctx\<rparr>;
                tried =
                  (case env_goto e ctx url vp of
                     Inl err \<Rightarrow> (Inl err, st2)
                   | Inr lp \<Rightarrow>
                       runCollectors lp url vp (env_loadTime e ctx)
                         (logLine ''Page loaded, starting analysis...'' st2));
                caught =
                  (case fst tried of
                     Inl err \<Rightarrow> logLine (''Error analyzing page: '' @ errorMessage err) (snd tried)
                   | Inr u \<Rightarrow> snd tried)
            in (fst tried,
                caught\<lparr>an_openContexts := removeAll ctx (an_openContexts caught)\<rparr>)))"

definition defaultViewports :: "viewport list" where
  "defaultViewports =
     [\<lparr>vp_name = Some ''mobile'', vp_width = 375, vp_height = 667\<rparr>,
      \<lparr>vp_name = Some ''tablet'', vp_width = 768, vp_height = 1024\<rparr>,
      \<lparr>vp_name = Some ''desktop'', vp_width = 1920, vp_height = 1080\<rparr>]"

definition viewportName :: "viewport \<Rightarrow> string" where
  "viewportName vp = (case vp_name vp of Some n \<Rightarrow> n | None \<Rightarrow> ''undefined'')"

text \<open>The \<open>for\<close> loop of \<open>analyzeResponsive\<close>, with \<open>responsiveData\<close> as accumulator.\<close>

fun responsiveLoop ::
  "env \<Rightarrow> string \<Rightarrow> viewport list \<Rightarrow> (string \<times> responsive_entry) list \<Rightarrow> analyzer
     \<Rightarrow> (error + (string \<times> responsive_entry) list) \<times> analyzer"
where
  "responsiveLoop e url [] responsiveData st = (Inr responsiveData, st)"
| "responsiveLoop e url (vp # vps) responsiveData st =
     (case analyzePage e (logLine (''Testing '' @ viewportName vp @ '' viewport...'') st) url vp of
        (Inl err, st') \<Rightarrow> (Inl err, st')
      | (Inr u, st') \<Rightarrow>
          responsiveLoop e url vps
            (AList.update (viewportName vp)
               \<lparr>re_viewport = vp,
                re_elementCount = length (ad_elements (an_analysisData st')),
                re_layoutStructure = ad_layout (an_analysisData st'),
                re_designTokens = ad_designTokens (an_analysisData st')\<rparr>
               responsiveData)
            st')"

definition analyzeResponsive :: "env \<Rightarrow> analyzer \<Rightarrow> string \<Rightarrow> (error + unit) \<times> analyzer" where
  "analyzeResponsive e st url =
     (case responsiveLoop e url defaultViewports [] (logLine ''Analyzing responsive behavior...'' st) of
        (Inl err, st') \<Rightarrow> (Inl err, st')
      | (Inr responsiveData, st') \<Rightarrow>
          (Inr (),
           st'\<lparr>an_analysisData := (an_analysisData st')\<lparr>ad_responsive := responsiveData\<rparr>\<rparr>))"

text \<open>\<open>saveResults\<close>: the default file name is built from the host name of the analyzed
  URL and the time, under a directory that is made when this run has not made it yet
  (paths are kept as joined, with their \<open>..\<close> step); the document written is the analysis
  data.\<close>

definition saveResults :: "env \<Rightarrow> analyzer \<Rightarrow> string option \<Rightarrow> (error + string) \<times> analyzer" where
  "saveResults e st filename =
     (let named =
            (case filename of
               Some f \<Rightarrow> if truthy f then Some (Inr (f, st)) else None
             | None \<Rightarrow> None);
          chosen =
            (case named of
               Some r \<Rightarrow> r
             | None \<Rightarrow>
                 (let timestamp = replaceChars '':.'' CHR ''-'' (env_now e) in
                  case ad_metadata (an_analysisData st) of
                    None \<Rightarrow> Inl (TypeError ''Invalid URL'')
                  | Some md \<Rightarrow>
                      (case env_hostname e (md_url md) of
                         None \<Rightarrow> Inl (TypeError ''Invalid URL'')
                       | Some domain \<Rightarrow>
                           (let outputDir = env_dirname e @ ''/../web-output/'' @ domain;
                                st' = (if outputDir \<in> set (an_dirs st) then st
                                       else st\<lparr>an_dirs := an_dirs st @ [outputDir]\<rparr>)
                            in Inr (outputDir @ ''/'' @ replaceChars ''.'' CHR ''_'' domain
                                      @ ''_analysis_'' @ timestamp @ ''.json'', st')))))
      in case chosen of
           Inl err \<Rightarrow> (Inl err, st)
         | Inr (f, st') \<Rightarrow>
             (let outputPath = env_resolve e f;
                  st'' = st'\<lparr>an_files := an_files st' @ [(outputPath, an_analysisData st')]\<rparr>
              in (Inr outputPath, logLine (''Analysis saved to: '' @ outputPath) st'')))"

definition initialAnalyzer :: analyzer where
  "initialAnalyzer =
     \<lparr>an_browser = False, an_analysisData = initialAnalysisData, an_openContexts = [],
      an_nextContext = 0, an_console = [], an_stderr = [], an_dirs = [], an_files = []\<rparr>"

definition initialize :: "env \<Rightarrow> analyzer \<Rightarrow> (error + unit) \<times> analyzer" where
  "initialize e st =
     (let st' = logLine ''Initializing Playwright browser...'' st in
      case env_launch e of
        Some err \<Rightarrow> (Inl err, st')
      | None \<Rightarrow> (Inr (), st'\<lparr>an_browser := True\<rparr>))"

definition close :: "analyzer \<Rightarrow> analyzer" where
  "close st = (if an_browser st then st\<lparr>an_browser := False\<rparr> else st)"

definition desktopViewport :: viewport where
  "desktopViewport = \<lparr>vp_name = None, vp_width = 1920, vp_height = 1080\<rparr>"

text \<open>The \<open>try\<close> block of \<open>main\<close>. Its last line goes to the console directly and
  starts with a line feed.\<close>

definition mainBody :: "env \<Rightarrow> analyzer \<Rightarrow> string \<Rightarrow> (error + unit) \<times> analyzer" where
  "mainBody e st url =
     (case initialize e st of
        (Inl err, st1) \<Rightarrow> (Inl err, st1)
      | (Inr u, st1) \<Rightarrow>
          (case analyzePage e st1 url desktopViewport of
             (Inl err, st2) \<Rightarrow> (Inl err, st2)
           | (Inr u, st2) \<Rightarrow>
               (case analyzeResponsive e st2 url of
                  (Inl err, st3) \<Rightarrow> (Inl err, st3)
                | (Inr u, st3) \<Rightarrow>
                    (case saveResults e st3 None of
                       (Inl err, st4) \<Rightarrow> (Inl err, st4)
                     | (Inr outputFile, st4) \<Rightarrow>
                         (Inr (),
                          logLine (CHR 0x0A # ''Analysis complete! Results saved to: '' @ outputFile) st4)))))"

text \<open>
  \<open>main\<close>, from the URL argument (\<open>None\<close> when absent) to the exit code and the final
  state. \<open>process.exit(1)\<close> in the \<open>catch\<close> block ends the process at once; the \<open>finally\<close>
  block runs on the normal path only.
\<close>

definition main :: "env \<Rightarrow> string option \<Rightarrow> nat \<times> analyzer" where
  "main e arg =
     (case (case arg of Some u \<Rightarrow> if truthy u then Some u else None | None \<Rightarrow> None) of
        None \<Rightarrow>
          (1, initialAnalyzer\<lparr>an_stderr := [''Usage: node website-analyzer.js <URL>'']\<rparr>)
      | Some url \<Rightarrow>
          (case mainBody e initialAnalyzer url of
             (Inl err, st) \<Rightarrow>
               (1, st\<lparr>an_stderr := an_stderr st @ [''Analysis failed: '' @ errorMessage err]\<rparr>)
           | (Inr u, st) \<Rightarrow> (0, close st)))"

section \<open>Notions used in the statements\<close>

text \<open>A catalog entry \<open>emits\<close> when its query returns more than one element; what it
  stores is \<open>componentOf\<close>. The entry whose component ends up under a name is the last
  emitting entry of the catalog with that name.\<close>

definition emits :: "(string \<Rightarrow> error + element list) \<Rightarrow> string \<Rightarrow> bool" where
  "emits query selector =
     (case query selector of Inl err \<Rightarrow> False | Inr elements \<Rightarrow> length elements > 1)"

definition matched :: "(string \<Rightarrow> error + element list) \<Rightarrow> string \<Rightarrow> element list" where
  "matched query selector = (case query selector of Inl err \<Rightarrow> [] | Inr elements \<Rightarrow> elements)"

definition componentOf :: "(string \<Rightarrow> error + element list) \<Rightarrow> string \<Rightarrow> component" where
  "componentOf query selector =
     \<lparr>cp_selector = selector, cp_count = length (matched query selector),
      cp_variations = map variationOf (enumerate 0 (matched query selector))\<rparr>"

definition lastEmitting ::
  "(string \<Rightarrow> error + element list) \<Rightarrow> string list \<Rightarrow> string \<Rightarrow> string option"
where
  "lastEmitting query catalog name =
     find (\<lambda>s. componentName s = name \<and> emits query s) (rev catalog)"

text \<open>Name, selector, count and number of variations of a pattern.\<close>

definition patternSummary :: "pattern \<Rightarrow> string \<times> string \<times> nat \<times> nat" where
  "patternSummary p = (pt_name p, pt_selector p, pt_count p, length (pt_variations p))"










text \<open>The viewports of the four navigations of \<open>main\<close>, in order: the primary pass,
  then the responsive pass. Their browsing contexts are numbered from \<open>0\<close>.\<close>

definition mainViewports :: "viewport list" where
  "mainViewports = desktopViewport # defaultViewports"

section \<open>Example pages\<close>

definition zeroRect :: rect where
  "zeroRect =
     \<lparr>rect_x = 0, rect_y = 0, rect_width = 0, rect_height = 0, rect_top = 0, rect_right = 0,
      rect_bottom = 0, rect_left = 0\<rparr>"

definition plainStyle :: computed_style where
  "plainStyle =
     \<lparr>propertyNames = [''color'', ''display'', ''position''],
      propertyValue =
        (\<lambda>p. if p = ''color'' then ''rgb(0, 0, 0)''
             else if p = ''background-color'' then ''rgba(0, 0, 0, 0)''
             else if p = ''display'' then ''block''
             else if p = ''position'' then ''static''
             else if p = ''margin-top'' then ''8px''
             else if p = ''margin-left'' then ''0px''
             else if p = ''box-shadow'' then ''none''
             else if p = ''background-image'' then ''none''
             else [])\<rparr>"

definition htmlNode :: "string \<Rightarrow> (string \<times> string) list \<Rightarrow> node" where
  "htmlNode name attrs =
     \<lparr>localName = name, nodeNamespace = HTML_NS, attributes = attrs, textContent = [],
      boundingClientRect = zeroRect, computedStyle = plainStyle, scrollWidth = 0,
      scrollHeight = 0, idlString = (\<lambda>p. []), idlNumber = (\<lambda>p. 0), idlBool = (\<lambda>p. False)\<rparr>"

definition pageOf :: "tree list \<Rightarrow> tree" where
  "pageOf content =
     Tree (htmlNode ''html'' [])
       [Tree (htmlNode ''head'' []) [], Tree (htmlNode ''body'' []) content]"

text \<open>A page with exactly one \<open><button class="btn">\<close> and one
  \<open><button class="btn secondary">\<close>.\<close>

definition twoBtnPage :: tree where
  "twoBtnPage =
     pageOf [Tree (htmlNode ''button'' [(''class'', ''btn'')]) [],
             Tree (htmlNode ''button'' [(''class'', ''btn secondary'')]) []]"

text \<open>Two \<open><button class="button">\<close> elements.\<close>

definition twoButtonClassPage :: tree where
  "twoButtonClassPage =
     pageOf [Tree (htmlNode ''button'' [(''class'', ''button'')]) [],
             Tree (htmlNode ''button'' [(''class'', ''button'')]) []]"

text \<open>Two \<open><button>\<close> elements without a class.\<close>

definition twoPlainButtonsPage :: tree where
  "twoPlainButtonsPage =
     pageOf [Tree (htmlNode ''button'' []) [], Tree (htmlNode ''button'' []) []]"


text \<open>A \<open><header>\<close> in the body, 1920 by 80 pixels, 40 pixels below the top.\<close>

definition headerRect :: rect where
  "headerRect =
     \<lparr>rect_x = 0, rect_y = 40, rect_width = 1920, rect_height = 80, rect_top = 40,
      rect_right = 1920, rect_bottom = 120, rect_left = 0\<rparr>"

definition headerPage :: tree where
  "headerPage =
     pageOf [Tree ((htmlNode ''header'' [])\<lparr>boundingClientRect := headerRect\<rparr>) []]"



definition loadedPage :: "tree \<Rightarrow> page" where
  "loadedPage doc =
     \<lparr>pg_document = doc, pg_title = ''Example'', pg_userAgent = ''Mozilla/5.0'',
      pg_innerHeight = 1080, pg_timestamp = ''2024-01-01T12:00:00.000Z'',
      pg_navigationEntries = [], pg_paintEntries = [], pg_resourceCount = 0\<rparr>"

text \<open>A world in which every navigation succeeds with the two-button page, which then
  stays as it is, and one in which the host cannot be reached.\<close>

definition reachableEnv :: env where
  "reachableEnv =
     \<lparr>env_launch = None, env_goto = (\<lambda>ctx url vp. Inr (\<lambda>trip. loadedPage twoBtnPage)),
      env_loadTime = (\<lambda>ctx. 120), env_hostname = (\<lambda>url. Some ''example.com''),
      env_now = ''2024-01-01T12:00:01.000Z'', env_dirname = ''/spiders'',
      env_resolve = (\<lambda>f. f)\<rparr>"

definition unreachableEnv :: env where
  "unreachableEnv =
     reachableEnv\<lparr>env_goto := (\<lambda>ctx url vp. Inl (NavigationError ''net::ERR_NAME_NOT_RESOLVED''))\<rparr>"

definition launchedAnalyzer :: analyzer where
  "launchedAnalyzer = initialAnalyzer\<lparr>an_browser := True\<rparr>"

section \<open>The universal selector and the traversal\<close>

lemma parse_star: "parseSelector ''*'' = Some [[(None, [])]]"
  by (simp add: parseSelector_def isCssSpace_def isNameStart_def isNameChar_def dquote_def)

lemma matches_universal: "selectorMatches [[(None, [])]] e"
  by (cases e) (simp add: selectorMatches_def)

lemma qsa_star: "querySelectorAll doc ''*'' = Inr (allElements doc)"
  by (simp add: querySelectorAll_def parse_star matches_universal)



section \<open>Parent indices\<close>




lemma collectElementData_eq:
  "collectElementData doc = Inr (map (elementData doc (allElements doc)) (enumerate 0 (allElements doc)))"
  by (simp add: collectElementData_def qsa_star)





section \<open>Design tokens\<close>














lemma collectDesignTokens_eq:
  "collectDesignTokens doc = Inr (fold tokenStep (allElements doc) emptyTokens)"
  by (simp add: collectDesignTokens_def qsa_star)








section \<open>Pattern recognizer\<close>

lemma htmlNode_sel:
  "localName (htmlNode n a) = n" "nodeNamespace (htmlNode n a) = HTML_NS"
  "attributes (htmlNode n a) = a" "computedStyle (htmlNode n a) = plainStyle"
  "textContent (htmlNode n a) = []"
  by (simp_all add: htmlNode_def)

lemmas parse_defs = parseSelector_def isCssSpace_def isNameStart_def isNameChar_def dquote_def

lemma catalog_parses:
  \<open>map parseSelector componentSelectors =
     [Some [[(Some ''button'', [])]],
      Some [[(None, [AttrContains ''class'' ''button''])]],
      Some [[(None, [AttrContains ''class'' ''btn''])]],
      Some [[(Some ''card'', [])]],
      Some [[(None, [AttrContains ''class'' ''card''])]],
      Some [[(None, [AttrContains ''class'' ''nav''])]],
      Some [[(Some ''nav'', []), (Some ''li'', [])]],
      Some [[(None, [AttrContains ''class'' ''modal''])]],
      Some [[(None, [AttrContains ''class'' ''dialog''])]],
      Some [[(None, [AttrContains ''class'' ''form''])]],
      Some [[(Some ''form'', [])]],
      Some [[(None, [AttrContains ''class'' ''header''])]],
      Some [[(None, [AttrContains ''class'' ''footer''])]],
      Some [[(None, [AttrContains ''class'' ''item''])]],
      Some [[(None, [AttrContains ''class'' ''component''])]]]\<close>
  by (simp add: componentSelectors_def parse_defs)

lemma catalog_names:
  "map componentName componentSelectors =
     [''button'', ''button'', ''btn'', ''card'', ''card'', ''nav'', ''nav li'', ''modal'',
      ''dialog'', ''form'', ''form'', ''header'', ''footer'', ''item'', ''component'']"
  by (simp add: componentSelectors_def componentName_def removeChars_def)

lemma catalog_distinct: "distinct componentSelectors"
  by (simp add: componentSelectors_def)


lemma patternStep_throws: "query s = Inl err \<Longrightarrow> patternStep query s comps = comps"
  by (simp add: patternStep_def)

lemma patternStep_emits:
  "patternStep query s comps =
     (if emits query s then AList.update (componentName s) (componentOf query s) comps else comps)"
  by (simp add: patternStep_def emits_def componentOf_def matched_def split: sum.splits)

lemma find_append_case:
  "find P (xs @ ys) = (case find P xs of None \<Rightarrow> find P ys | Some x \<Rightarrow> Some x)"
  by (induction xs) simp_all

lemma lastEmitting_Cons:
  "lastEmitting query (s # cat) n =
     (case lastEmitting query cat n of
        Some x \<Rightarrow> Some x
      | None \<Rightarrow> if componentName s = n \<and> emits query s then Some s else None)"
  by (simp add: lastEmitting_def find_append_case split: option.splits)

lemma components_lookup:
  "map_of (fold (patternStep query) cat acc) n =
     (case lastEmitting query cat n of
        Some s \<Rightarrow> Some (componentOf query s)
      | None \<Rightarrow> map_of acc n)"
proof (induction cat arbitrary: acc)
  case Nil
  show ?case by (simp add: lastEmitting_def)
next
  case (Cons s cat)
  have step: "map_of (patternStep query s acc) n =
        (if componentName s = n \<and> emits query s then Some (componentOf query s) else map_of acc n)"
    by (simp add: patternStep_emits update_conv)
  have "map_of (fold (patternStep query) (s # cat) acc) n =
        (case lastEmitting query cat n of
           Some s' \<Rightarrow> Some (componentOf query s')
         | None \<Rightarrow> map_of (patternStep query s acc) n)"
    by (simp add: Cons.IH)
  then show ?case by (simp add: step lastEmitting_Cons split: option.splits)
qed

lemma components_distinct:
  "distinct (map fst acc) \<Longrightarrow> distinct (map fst (fold (patternStep query) cat acc))"
proof (induction cat arbitrary: acc)
  case Nil
  then show ?case by simp
next
  case (Cons s cat)
  from Cons.prems have "distinct (map fst (patternStep query s acc))"
    by (simp add: patternStep_emits distinct_update)
  then show ?case by (simp add: Cons.IH)
qed

lemma components_member:
  "(n, c) \<in> set (fold (patternStep query) cat []) \<longleftrightarrow>
     (\<exists>s. lastEmitting query cat n = Some s \<and> c = componentOf query s)"
proof -
  have "(n, c) \<in> set (fold (patternStep query) cat []) \<longleftrightarrow>
        map_of (fold (patternStep query) cat []) n = Some c"
    using components_distinct[of "[]" query cat] by (auto intro: map_of_is_SomeI dest: map_of_SomeD)
  then show ?thesis by (auto simp: components_lookup split: option.splits)
qed

lemma find_SomeD: "find P xs = Some x \<Longrightarrow> x \<in> set xs \<and> P x"
  by (induction xs) (auto split: if_splits)

lemma lastEmitting_Some:
  "lastEmitting query cat n = Some s \<Longrightarrow> s \<in> set cat \<and> componentName s = n \<and> emits query s"
  unfolding lastEmitting_def by (auto dest: find_SomeD)

lemma emits_query:
  "emits query s \<Longrightarrow> \<exists>els. query s = Inr els \<and> 1 < length els \<and> matched query s = els"
  by (auto simp: emits_def matched_def split: sum.splits)

lemma pattern_member:
  "p \<in> set (recognizePatterns query cat) \<longleftrightarrow>
     (\<exists>s. lastEmitting query cat (pt_name p) = Some s \<and> pt_selector p = s
          \<and> pt_count p = length (matched query s)
          \<and> pt_variations p = map variationOf (enumerate 0 (matched query s)))"
proof
  assume "p \<in> set (recognizePatterns query cat)"
  then obtain n c where nc: "(n, c) \<in> set (fold (patternStep query) cat [])" "p = patternOf (n, c)"
    by (auto simp: recognizePatterns_def)
  from nc(1) obtain s where s: "lastEmitting query cat n = Some s" "c = componentOf query s"
    by (auto simp: components_member)
  show "\<exists>s. lastEmitting query cat (pt_name p) = Some s \<and> pt_selector p = s
          \<and> pt_count p = length (matched query s)
          \<and> pt_variations p = map variationOf (enumerate 0 (matched query s))"
    by (rule exI[of _ s]) (simp add: nc(2) s patternOf_def componentOf_def)
next
  assume "\<exists>s. lastEmitting query cat (pt_name p) = Some s \<and> pt_selector p = s
          \<and> pt_count p = length (matched query s)
          \<and> pt_variations p = map variationOf (enumerate 0 (matched query s))"
  then obtain s where s: "lastEmitting query cat (pt_name p) = Some s" "pt_selector p = s"
    "pt_count p = length (matched query s)"
    "pt_variations p = map variationOf (enumerate 0 (matched query s))" by blast
  have "(pt_name p, componentOf query s) \<in> set (fold (patternStep query) cat [])"
    by (simp add: components_member s(1))
  moreover have "p = patternOf (pt_name p, componentOf query s)"
    by (simp add: patternOf_def componentOf_def s)
  ultimately show "p \<in> set (recognizePatterns query cat)"
    unfolding recognizePatterns_def by (metis image_eqI set_map)
qed

lemma pattern_names_distinct: "distinct (map pt_name (recognizePatterns query cat))"
proof -
  have "map pt_name (recognizePatterns query cat) = map fst (fold (patternStep query) cat [])"
    by (simp add: recognizePatterns_def patternOf_def case_prod_unfold comp_def)
  then show ?thesis using components_distinct[of "[]" query cat] by simp
qed

lemma selector_emitted:
  "s \<in> pt_selector ` set (recognizePatterns query cat) \<longleftrightarrow>
     lastEmitting query cat (componentName s) = Some s"
proof
  assume "s \<in> pt_selector ` set (recognizePatterns query cat)"
  then obtain p where "p \<in> set (recognizePatterns query cat)" "pt_selector p = s" by auto
  then have l: "lastEmitting query cat (pt_name p) = Some s" by (auto simp: pattern_member)
  then have "componentName s = pt_name p" by (auto dest: lastEmitting_Some)
  with l show "lastEmitting query cat (componentName s) = Some s" by simp
next
  assume l: "lastEmitting query cat (componentName s) = Some s"
  let ?p = "patternOf (componentName s, componentOf query s)"
  have "?p \<in> set (recognizePatterns query cat)"
    by (simp add: pattern_member patternOf_def componentOf_def l)
  moreover have "pt_selector ?p = s" by (simp add: patternOf_def componentOf_def)
  ultimately show "s \<in> pt_selector ` set (recognizePatterns query cat)" by (metis image_eqI)
qed

lemma lastEmitting_position:
  assumes "distinct cat" "i < length cat"
  shows "lastEmitting query cat (componentName (cat ! i)) = Some (cat ! i) \<longleftrightarrow>
         emits query (cat ! i) \<and>
         (\<forall>s' \<in> set (drop (Suc i) cat).
            componentName s' = componentName (cat ! i) \<longrightarrow> \<not> emits query s')"
proof -
  let ?s = "cat ! i"
  let ?P = "\<lambda>x. componentName x = componentName ?s \<and> emits query x"
  have split: "cat = take i cat @ ?s # drop (Suc i) cat" using assms(2) by (rule id_take_nth_drop)
  have notpre: "?s \<notin> set (take i cat)" and notsuf: "?s \<notin> set (drop (Suc i) cat)"
    using assms(1) by (subst (asm) split, simp)+
  have r: "rev cat = rev (drop (Suc i) cat) @ ?s # rev (take i cat)"
    by (subst split) simp
  have f: "lastEmitting query cat (componentName ?s) =
        (case find ?P (rev (drop (Suc i) cat)) of
           Some x \<Rightarrow> Some x
         | None \<Rightarrow> if emits query ?s then Some ?s else find ?P (rev (take i cat)))"
    unfolding lastEmitting_def by (subst r) (simp add: find_append_case split: option.splits)
  show ?thesis
  proof
    assume a: "lastEmitting query cat (componentName ?s) = Some ?s"
    have n: "find ?P (rev (drop (Suc i) cat)) = None"
    proof (cases "find ?P (rev (drop (Suc i) cat))")
      case None then show ?thesis .
    next
      case (Some x)
      with a f have "x = ?s" by simp
      moreover from Some have "x \<in> set (drop (Suc i) cat)" by (auto dest: find_SomeD)
      ultimately show ?thesis using notsuf by simp
    qed
    have e: "emits query ?s"
    proof (rule ccontr)
      assume "\<not> emits query ?s"
      with a f n have "find ?P (rev (take i cat)) = Some ?s" by simp
      then have "?s \<in> set (take i cat)" by (auto dest: find_SomeD)
      with notpre show False by simp
    qed
    from n have "\<forall>s' \<in> set (drop (Suc i) cat). \<not> ?P s'" by (simp add: find_None_iff)
    with e show "emits query ?s \<and> (\<forall>s' \<in> set (drop (Suc i) cat).
            componentName s' = componentName ?s \<longrightarrow> \<not> emits query s')" by blast
  next
    assume a: "emits query ?s \<and> (\<forall>s' \<in> set (drop (Suc i) cat).
            componentName s' = componentName ?s \<longrightarrow> \<not> emits query s')"
    then have "find ?P (rev (drop (Suc i) cat)) = None" by (auto simp: find_None_iff)
    with a f show "lastEmitting query cat (componentName ?s) = Some ?s" by simp
  qed
qed


lemma emits_matched: "emits query s = (1 < length (matched query s))"
  by (simp add: emits_def matched_def split: sum.splits)

lemma componentOf_fields:
  "cp_selector (componentOf query s) = s"
  "cp_count (componentOf query s) = length (matched query s)"
  "length (cp_variations (componentOf query s)) = length (matched query s)"
  by (simp_all add: componentOf_def)

lemma summary_patternOf:
  "patternSummary (patternOf (n, c)) = (n, cp_selector c, cp_count c, length (cp_variations c))"
  by (simp add: patternSummary_def patternOf_def)

lemma selName_lower:
  "selName e ''class'' = ''class''" "selName e ''button'' = ''button''"
  "selName e ''card'' = ''card''" "selName e ''nav'' = ''nav''" "selName e ''li'' = ''li''"
  "selName e ''form'' = ''form''"
  by (simp_all add: selName_def asciiLowerCase_def asciiLowerChar_def)

lemma selValue_class: "selValue e ''class'' v = v"
  by (simp add: selValue_def selName_lower legacyCaseInsensitive_def)

lemmas match_defs = querySelectorAll_def matched_def selectorMatches_def allElements_def
  pageOf_def htmlNode_sel getAttribute_def selName_lower selValue_class

lemma twoBtn_counts:
  "map (\<lambda>s. length (matched (querySelectorAll twoBtnPage) s)) componentSelectors =
     [2, 0, 2, 0, 0, 0, 0, 0, 0, 0, 0, 0, 0, 0, 0]"
  by (simp add: componentSelectors_def parse_defs match_defs twoBtnPage_def)

lemma twoBtn_patterns:
  \<open>map patternSummary (identifyComponentPatterns twoBtnPage) =
     [(''button'', ''button'', 2, 2), (''btn'', ''[class*="btn"]'', 2, 2)]\<close>
  using twoBtn_counts
  by (simp add: identifyComponentPatterns_def recognizePatterns_def componentSelectors_def
      patternStep_emits emits_matched summary_patternOf componentOf_fields componentName_def
      removeChars_def)


lemma twoButtonClass_counts:
  "map (\<lambda>s. length (matched (querySelectorAll twoButtonClassPage) s)) componentSelectors =
     [2, 2, 0, 0, 0, 0, 0, 0, 0, 0, 0, 0, 0, 0, 0]"
  by (simp add: componentSelectors_def parse_defs match_defs twoButtonClassPage_def)

lemma twoButtonClass_patterns:
  \<open>map patternSummary (identifyComponentPatterns twoButtonClassPage) =
     [(''button'', ''[class*="button"]'', 2, 2)]\<close>
  using twoButtonClass_counts
  by (simp add: identifyComponentPatterns_def recognizePatterns_def componentSelectors_def
      patternStep_emits emits_matched summary_patternOf componentOf_fields componentName_def
      removeChars_def)

lemma twoPlainButtons_counts:
  "map (\<lambda>s. length (matched (querySelectorAll twoPlainButtonsPage) s)) componentSelectors =
     [2, 0, 0, 0, 0, 0, 0, 0, 0, 0, 0, 0, 0, 0, 0]"
  by (simp add: componentSelectors_def parse_defs match_defs twoPlainButtonsPage_def)

lemma twoPlainButtons_patterns:
  \<open>map patternSummary (identifyComponentPatterns twoPlainButtonsPage) =
     [(''button'', ''button'', 2, 2)]\<close>
  using twoPlainButtons_counts
  by (simp add: identifyComponentPatterns_def recognizePatterns_def componentSelectors_def
      patternStep_emits emits_matched summary_patternOf componentOf_fields componentName_def
      removeChars_def)

lemma summary_selectors: "map pt_selector ps = map (\<lambda>t. fst (snd t)) (map patternSummary ps)"
  by (simp add: patternSummary_def comp_def)

lemma summary_names: "map pt_name ps = map fst (map patternSummary ps)"
  by (simp add: patternSummary_def comp_def)

text \<open>
  Claim C1, as stated: a pattern is emitted for a catalog selector if and only if more
  than one element matches it. On the page with two \<open><button class="button">\<close> elements
  the selector \<open>button\<close> matches two elements, and yet no pattern with that selector is
  emitted: the only pattern is the one of \<open>[class*="button"]\<close>, stored under the same name.
\<close>

theorem pattern_iff_counterexample:
  \<open>length (matched (querySelectorAll twoButtonClassPage) ''button'') = 2
   \<and> emits (querySelectorAll twoButtonClassPage) ''button''
   \<and> map pt_selector (identifyComponentPatterns twoButtonClassPage) = [''[class*="button"]'']\<close>
proof -
  have "length (matched (querySelectorAll twoButtonClassPage) ''button'') = 2"
    using twoButtonClass_counts by (simp add: componentSelectors_def)
  then show ?thesis
    by (simp add: emits_matched summary_selectors twoButtonClass_patterns)
qed

text \<open>
  Claim C1, amended. Every emitted pattern belongs to a catalog selector that matched
  more than one element; its name is the sanitized selector, its count the number of
  matched elements, and its variations are one per matched element, in order. A pattern
  is emitted for the catalog entry at position \<open>i\<close> if and only if more than one element
  matches it and no later entry with the same sanitized name matches more than one
  element. On the page with one \<open><button class="btn">\<close> and one
  \<open><button class="btn secondary">\<close> the patterns are \<open>button\<close> and \<open>btn\<close>, each with count 2 and
  two variations.
\<close>

theorem patterns_emitted:
  \<open>(\<forall>p \<in> set (identifyComponentPatterns doc).
      pt_selector p \<in> set componentSelectors
      \<and> pt_name p = componentName (pt_selector p)
      \<and> (\<exists>els. querySelectorAll doc (pt_selector p) = Inr els \<and> 1 < length els
             \<and> pt_count p = length els
             \<and> pt_variations p = map variationOf (enumerate 0 els)))
   \<and> (\<forall>i < length componentSelectors.
        (componentSelectors ! i \<in> pt_selector ` set (identifyComponentPatterns doc)) =
        (emits (querySelectorAll doc) (componentSelectors ! i)
         \<and> (\<forall>s' \<in> set (drop (Suc i) componentSelectors).
               componentName s' = componentName (componentSelectors ! i)
               \<longrightarrow> \<not> emits (querySelectorAll doc) s')))
   \<and> map patternSummary (identifyComponentPatterns twoBtnPage) =
        [(''button'', ''button'', 2, 2), (''btn'', ''[class*="btn"]'', 2, 2)]\<close>
proof (intro conjI ballI allI impI)
  fix p assume p: "p \<in> set (identifyComponentPatterns doc)"
  let ?q = "querySelectorAll doc"
  from p have l: "lastEmitting ?q componentSelectors (pt_name p) = Some (pt_selector p)"
    and c: "pt_count p = length (matched ?q (pt_selector p))"
    and v: "pt_variations p = map variationOf (enumerate 0 (matched ?q (pt_selector p)))"
    unfolding identifyComponentPatterns_def by (auto simp: pattern_member)
  from lastEmitting_Some[OF l] show "pt_selector p \<in> set componentSelectors"
    and "pt_name p = componentName (pt_selector p)" by simp_all
  from lastEmitting_Some[OF l] have "emits ?q (pt_selector p)" by simp
  from emits_query[OF this] obtain els where
    e: "?q (pt_selector p) = Inr els" "1 < length els" "matched ?q (pt_selector p) = els"
    by blast
  show "\<exists>els. ?q (pt_selector p) = Inr els \<and> 1 < length els \<and> pt_count p = length els
             \<and> pt_variations p = map variationOf (enumerate 0 els)"
    using e(2) by (intro exI[of _ els]) (simp add: e(1,3) c v)
next
  fix i assume i: "i < length componentSelectors"
  show "(componentSelectors ! i \<in> pt_selector ` set (identifyComponentPatterns doc)) =
        (emits (querySelectorAll doc) (componentSelectors ! i)
         \<and> (\<forall>s' \<in> set (drop (Suc i) componentSelectors).
               componentName s' = componentName (componentSelectors ! i)
               \<longrightarrow> \<not> emits (querySelectorAll doc) s'))"
    unfolding identifyComponentPatterns_def selector_emitted
    by (rule lastEmitting_position[OF catalog_distinct i])
next
  show \<open>map patternSummary (identifyComponentPatterns twoBtnPage) =
        [(''button'', ''button'', 2, 2), (''btn'', ''[class*="btn"]'', 2, 2)]\<close>
    by (rule twoBtn_patterns)
qed


text \<open>On the two-button page: \<open>button\<close>, the first catalog entry, matches both buttons
  and no later entry named \<open>button\<close> matches two elements, so its pattern is emitted;
  \<open>[class*="button"]\<close>, the second entry, matches nothing and has no pattern.\<close>

theorem patterns_emitted_witness:
  \<open>''button'' \<in> pt_selector ` set (identifyComponentPatterns twoBtnPage)
   \<and> ''[class*="button"]'' \<notin> pt_selector ` set (identifyComponentPatterns twoBtnPage)
   \<and> emits (querySelectorAll twoBtnPage) ''button''
   \<and> \<not> emits (querySelectorAll twoBtnPage) ''[class*="button"]''\<close>
proof -
  let ?q = "querySelectorAll twoBtnPage"
  let ?ps = "identifyComponentPatterns twoBtnPage"
  have b: "(componentSelectors ! i \<in> pt_selector ` set ?ps) =
        (emits ?q (componentSelectors ! i)
         \<and> (\<forall>s' \<in> set (drop (Suc i) componentSelectors).
               componentName s' = componentName (componentSelectors ! i) \<longrightarrow> \<not> emits ?q s'))"
    if "i < length componentSelectors" for i
    using patterns_emitted[of twoBtnPage] that by blast
  have counts: "map (\<lambda>s. emits ?q s) componentSelectors =
      [True, False, True, False, False, False, False, False, False, False, False, False, False,
       False, False]"
    using twoBtn_counts by (simp add: emits_matched componentSelectors_def)
  have e0: \<open>emits ?q ''button''\<close> and e1: \<open>\<not> emits ?q ''[class*="button"]''\<close>
    using counts by (simp_all add: componentSelectors_def)
  have len: "0 < length componentSelectors" "1 < length componentSelectors"
    by (simp_all add: componentSelectors_def)
  have r0: "emits ?q (componentSelectors ! 0)
         \<and> (\<forall>s' \<in> set (drop (Suc 0) componentSelectors).
               componentName s' = componentName (componentSelectors ! 0) \<longrightarrow> \<not> emits ?q s')"
    using counts by (simp add: componentSelectors_def componentName_def removeChars_def)
  have r1: "\<not> emits ?q (componentSelectors ! 1)"
    using counts by (simp add: componentSelectors_def)
  have "componentSelectors ! 0 \<in> pt_selector ` set ?ps"
    by (rule b[OF len(1), THEN iffD2, OF r0])
  moreover have "componentSelectors ! 1 \<notin> pt_selector ` set ?ps"
    using b[OF len(2), THEN iffD1] r1 by (elim contrapos_nn) (rule conjunct1)
  ultimately show ?thesis using e0 e1 by (simp add: componentSelectors_def)
qed


text \<open>
  Claim C10, as stated: whenever two catalog selectors sanitize to the same name, only
  the later-processed entry's selector, count and variations appear under that name.
  \<open>button\<close> and \<open>[class*="button"]\<close> both sanitize to \<open>button\<close>; on the page with two
  \<open><button>\<close> elements without a class the pattern named \<open>button\<close> carries the selector
  of the earlier entry, because the later one matches nothing.
\<close>

theorem later_entry_counterexample:
  \<open>componentName ''button'' = ''button''
   \<and> componentName ''[class*="button"]'' = ''button''
   \<and> map patternSummary (identifyComponentPatterns twoPlainButtonsPage) =
       [(''button'', ''button'', 2, 2)]\<close>
  by (simp add: twoPlainButtons_patterns componentName_def removeChars_def)

text \<open>
  Claim C10, amended. The names of the emitted patterns are pairwise distinct. The name
  of a pattern is its selector sanitized (the characters \<open>[ ] " * =\<close> removed, then the
  first \<open>class\<close> deleted), and under each name stand the selector, the count and the
  variations of the last catalog entry, in processing order, that sanitizes to that name
  and matched more than one element. \<open>button\<close> and \<open>[class*="button"]\<close> both sanitize to
  \<open>button\<close>, \<open>[class*="form"]\<close> and \<open>form\<close> both to \<open>form\<close>.
\<close>

theorem pattern_names_unique:
  \<open>distinct (map pt_name (identifyComponentPatterns doc))
   \<and> (\<forall>p \<in> set (identifyComponentPatterns doc).
        pt_name p = componentName (pt_selector p)
        \<and> lastEmitting (querySelectorAll doc) componentSelectors (pt_name p) = Some (pt_selector p)
        \<and> pt_count p = length (matched (querySelectorAll doc) (pt_selector p))
        \<and> pt_variations p =
            map variationOf (enumerate 0 (matched (querySelectorAll doc) (pt_selector p))))
   \<and> componentName ''button'' = ''button''
   \<and> componentName ''[class*="button"]'' = ''button''
   \<and> componentName ''[class*="form"]'' = ''form''
   \<and> componentName ''form'' = ''form''\<close>
proof (intro conjI ballI)
  show "distinct (map pt_name (identifyComponentPatterns doc))"
    unfolding identifyComponentPatterns_def by (rule pattern_names_distinct)
next
  fix p assume p: "p \<in> set (identifyComponentPatterns doc)"
  let ?q = "querySelectorAll doc"
  from p show l: "lastEmitting ?q componentSelectors (pt_name p) = Some (pt_selector p)"
    and "pt_count p = length (matched ?q (pt_selector p))"
    and "pt_variations p = map variationOf (enumerate 0 (matched ?q (pt_selector p)))"
    unfolding identifyComponentPatterns_def by (auto simp: pattern_member)
  from lastEmitting_Some[OF l] show "pt_name p = componentName (pt_selector p)" by simp
qed (simp_all add: componentName_def removeChars_def)

text \<open>On the page with two \<open><button class="button">\<close> elements both entries named
  \<open>button\<close> match two elements, and the later one, \<open>[class*="button"]\<close>, is the one kept.\<close>

theorem pattern_names_unique_witness:
  \<open>map patternSummary (identifyComponentPatterns twoButtonClassPage) =
     [(''button'', ''[class*="button"]'', 2, 2)]
   \<and> lastEmitting (querySelectorAll twoButtonClassPage) componentSelectors ''button''
       = Some ''[class*="button"]''
   \<and> emits (querySelectorAll twoButtonClassPage) ''button''
   \<and> emits (querySelectorAll twoButtonClassPage) ''[class*="button"]''\<close>
proof -
  let ?q = "querySelectorAll twoButtonClassPage"
  let ?ps = "identifyComponentPatterns twoButtonClassPage"
  from twoButtonClass_patterns obtain p where
    p: "?ps = [p]" \<open>patternSummary p = (''button'', ''[class*="button"]'', 2, 2)\<close>
    by (cases ?ps) auto
  then have "p \<in> set ?ps" by simp
  with pattern_names_unique[of twoButtonClassPage]
  have "lastEmitting ?q componentSelectors (pt_name p) = Some (pt_selector p)" by blast
  with p(2) have l: \<open>lastEmitting ?q componentSelectors ''button'' = Some ''[class*="button"]''\<close>
    by (simp add: patternSummary_def)
  have \<open>emits ?q ''button''\<close> \<open>emits ?q ''[class*="button"]''\<close>
    using twoButtonClass_counts by (simp_all add: emits_matched componentSelectors_def)
  with l twoButtonClass_patterns show ?thesis by (intro conjI)
qed

text \<open>
  Claim C7. A catalog entry whose query throws leaves the component map as it was, so
  the patterns of a catalog with such an entry are those of the catalog without it; the
  recognizer is a total function and returns its list whatever the queries do. This
  holds for every query function and every catalog, the analyzer's own included.
\<close>

theorem throwing_selector_skipped:
  assumes "query s = Inl err"
  shows "recognizePatterns query (before @ s # after) = recognizePatterns query (before @ after)"
  using assms by (simp add: recognizePatterns_def patternStep_throws)

text \<open>On the two-button page, with a malformed selector between \<open>button\<close> and
  \<open>[class*="btn"]\<close>: the query throws, and both other patterns are produced.\<close>

theorem throwing_selector_skipped_witness:
  \<open>querySelectorAll twoBtnPage ''[class*='' = Inl (SyntaxError ''[class*='')
   \<and> recognizePatterns (querySelectorAll twoBtnPage) [''button'', ''[class*='', ''[class*="btn"]'']
       = recognizePatterns (querySelectorAll twoBtnPage) [''button'', ''[class*="btn"]'']
   \<and> map pt_name
         (recognizePatterns (querySelectorAll twoBtnPage)
            [''button'', ''[class*='', ''[class*="btn"]''])
       = [''button'', ''btn'']\<close>
proof -
  let ?q = "querySelectorAll twoBtnPage"
  have t: \<open>?q ''[class*='' = Inl (SyntaxError ''[class*='')\<close>
    by (simp add: querySelectorAll_def parse_defs)
  have eq: \<open>recognizePatterns ?q ([''button''] @ ''[class*='' # [''[class*="btn"]''])
       = recognizePatterns ?q ([''button''] @ [''[class*="btn"]''])\<close>
    using t by (rule throwing_selector_skipped)
  have c: \<open>length (matched ?q ''button'') = 2\<close> \<open>length (matched ?q ''[class*="btn"]'') = 2\<close>
    using twoBtn_counts by (simp_all add: componentSelectors_def)
  have \<open>map pt_name (recognizePatterns ?q [''button'', ''[class*="btn"]'']) = [''button'', ''btn'']\<close>
    by (simp add: recognizePatterns_def patternStep_emits emits_matched c patternOf_def
        componentName_def removeChars_def)
  with t eq show ?thesis by simp
qed

section \<open>Generated selectors\<close>





lemmas element_defs = getAttribute_def elementId_def className_def classNameString_def tagName_def
  sameElement_def isBodyElement_def isChildOf_def documentBody_def isDocumentBody_def truthy_def
  toLowerCase_def toLowerChar_def upperLetters_def lowerLetters_def asciiUpperCase_def
  asciiUpperChar_def htmlNode_sel





section \<open>Landmark sections\<close>

lemma sectionInfo_Some:
  "sectionInfo (Some el) =
     [(''exists'', JBool True),
      (''dimensions'',
         JObj [(''width'', JNum (rect_width (boundingClientRect (elNode el)))),
               (''height'', JNum (rect_height (boundingClientRect (elNode el))))]),
      (''position'', JStr (computed el ''position'')),
      (''display'', JStr (computed el ''display''))]"
  by (simp add: sectionInfo_def objectLiteral_def Let_def)

lemma sectionInfo_None: "sectionInfo None = [(''exists'', JBool False)]"
  by (simp add: sectionInfo_def objectLiteral_def)

lemma selName_landmarks:
  "selName e ''header'' = ''header''" "selName e ''main'' = ''main''"
  "selName e ''aside'' = ''aside''" "selName e ''footer'' = ''footer''"
  "selName e ''role'' = ''role''" "selName e ''style'' = ''style''"
  by (simp_all add: selName_def asciiLowerCase_def asciiLowerChar_def)

lemma header_sections:
  \<open>findSections headerPage landmarkSelectors =
     Inr [(''header'', Some (allElements headerPage ! 3)), (''nav'', None), (''main'', None),
          (''aside'', None), (''footer'', None)]\<close>
  by (simp add: landmarkSelectors_def firstOf_def querySelector_def querySelectorAll_def
      parse_defs selectorMatches_def allElements_def headerPage_def pageOf_def htmlNode_def
      getAttribute_def selName_lower selName_landmarks)

lemma header_layout_types:
  \<open>querySelectorAll headerPage ''[style*="grid"], [class*="grid"]'' = Inr []\<close>
  \<open>querySelectorAll headerPage ''[style*="flex"], [class*="flex"]'' = Inr []\<close>
  by (simp_all add: querySelectorAll_def parse_defs selectorMatches_def allElements_def
      headerPage_def pageOf_def htmlNode_def getAttribute_def selName_lower selName_landmarks)

lemma header_body: "documentBody headerPage \<noteq> None"
  by (simp add: headerPage_def pageOf_def allElements_def element_defs)

text \<open>
  Claim C5 on a page with a \<open><header>\<close> whose box is 1920 by 80 at \<open>(0, 40)\<close>: the section
  record of \<open>header\<close> has the four keys \<open>exists\<close>, \<open>dimensions\<close>, \<open>position\<close> and \<open>display\<close>,
  and \<open>position\<close> holds the CSS position mode \<open>static\<close>. The object literal names the key
  \<open>position\<close> twice, so the geometric position written first is replaced: the record has
  no \<open>x\<close> and no \<open>y\<close>.
\<close>

theorem section_position_overwritten:
  "\<exists>l. collectLayoutStructure (loadedPage headerPage) = Inr l
     \<and> ly_sections l =
         [(''header'',
            [(''exists'', JBool True),
             (''dimensions'', JObj [(''width'', JNum 1920), (''height'', JNum 80)]),
             (''position'', JStr ''static''),
             (''display'', JStr ''block'')]),
          (''nav'', [(''exists'', JBool False)]),
          (''main'', [(''exists'', JBool False)]),
          (''aside'', [(''exists'', JBool False)]),
          (''footer'', [(''exists'', JBool False)])]"
proof -
  have h: "sectionInfo (Some (allElements headerPage ! 3)) =
      [(''exists'', JBool True),
       (''dimensions'', JObj [(''width'', JNum 1920), (''height'', JNum 80)]),
       (''position'', JStr ''static''),
       (''display'', JStr ''block'')]"
    unfolding sectionInfo_Some
    by (simp add: headerPage_def pageOf_def allElements_def htmlNode_def headerRect_def
        computed_def plainStyle_def)
  obtain b where b: "documentBody headerPage = Some b" using header_body by blast
  show ?thesis
    by (simp add: collectLayoutStructure_def loadedPage_def header_sections header_layout_types
        b h sectionInfo_None Let_def)
qed

section \<open>The analysis pipeline\<close>

lemma logLine_fields [simp]:
  "an_browser (logLine m st) = an_browser st"
  "an_analysisData (logLine m st) = an_analysisData st"
  "an_openContexts (logLine m st) = an_openContexts st"
  "an_nextContext (logLine m st) = an_nextContext st"
  "an_stderr (logLine m st) = an_stderr st"
  "an_dirs (logLine m st) = an_dirs st"
  "an_files (logLine m st) = an_files st"
  by (simp_all add: logLine_def)

lemma stage_Inl: "stage m c (Inl err, st) = (Inl err, st)"
  by (simp add: stage_def)

lemma stage_Inr:
  "stage m c (Inr u, st) =
     (case c (an_analysisData st) of
        Inl err \<Rightarrow> (Inl err, logLine m st)
      | Inr d \<Rightarrow> (Inr (), (logLine m st)\<lparr>an_analysisData := d\<rparr>))"
  by (simp add: stage_def Let_def)

lemma stage_frame:
  "an_browser (snd (stage m c rs)) = an_browser (snd rs)"
  "an_openContexts (snd (stage m c rs)) = an_openContexts (snd rs)"
  "an_nextContext (snd (stage m c rs)) = an_nextContext (snd rs)"
  "an_stderr (snd (stage m c rs)) = an_stderr (snd rs)"
  "an_dirs (snd (stage m c rs)) = an_dirs (snd rs)"
  "an_files (snd (stage m c rs)) = an_files (snd rs)"
  by (cases rs; cases "fst rs"; simp add: stage_def Let_def split: sum.splits)+

lemma stage_success:
  assumes "stage m c rs = (Inr u, st')"
  obtains st0 d where "rs = (Inr (), st0)" "c (an_analysisData st0) = Inr d"
    "an_analysisData st' = d"
  using assms by (cases rs; cases "fst rs") (auto simp: stage_def Let_def split: sum.splits)

lemma stage_failure_data:
  "fst (stage m c rs) = Inl err \<Longrightarrow> fst rs = Inr u \<Longrightarrow>
   an_analysisData (snd (stage m c rs)) = an_analysisData (snd rs)"
  by (cases rs) (auto simp: stage_def Let_def split: sum.splits)

lemma runCollectors_frame:
  "an_browser (snd (runCollectors lp url vp lt st)) = an_browser st"
  "an_openContexts (snd (runCollectors lp url vp lt st)) = an_openContexts st"
  "an_nextContext (snd (runCollectors lp url vp lt st)) = an_nextContext st"
  "an_stderr (snd (runCollectors lp url vp lt st)) = an_stderr st"
  "an_dirs (snd (runCollectors lp url vp lt st)) = an_dirs st"
  "an_files (snd (runCollectors lp url vp lt st)) = an_files st"
  by (simp_all add: runCollectors_def stage_frame)


lemma withResult_Inr: "withResult r f = Inr d \<Longrightarrow> \<exists>v. r = Inr v \<and> d = f v"
  by (cases r) (simp_all add: withResult_def)

lemma stage_chain:
  assumes "stage m c rs = (Inr u, st')"
    and "\<And>st0. rs = (Inr (), st0) \<Longrightarrow> c (an_analysisData st0) = Inr (an_analysisData st') \<Longrightarrow> P"
  shows P
  using assms(1) by (rule stage_success) (simp add: assms(2))

lemma runCollectors_success:
  assumes "runCollectors lp url vp lt st = (Inr u, st')"
  shows "\<exists>md ly tk els ast.
           collectMetadata lp url vp lt = Inr md
         \<and> collectDesignTokens (pg_document (lp tokensTrip)) = Inr tk
         \<and> collectElementData (pg_document (lp elementsTrip)) = Inr els
         \<and> collectLayoutStructure (lp layoutTrip) = Inr ly
         \<and> collectAssets (pg_document (lp assetsTrip)) = Inr ast
         \<and> an_analysisData st' =
             (an_analysisData st)
               \<lparr>ad_metadata := Some (md\<lparr>md_performance := Some (collectPerformanceMetrics (lp performanceTrip))\<rparr>),
                ad_designTokens := tk, ad_elements := els, ad_layout := Some ly,
                ad_assets := ast,
                ad_componentPatterns := identifyComponentPatterns (pg_document (lp patternsTrip))\<rparr>"
  using assms unfolding runCollectors_def
  apply (elim stage_chain)
  apply (drule withResult_Inr)+
  apply (elim exE conjE)
  apply (simp add: setPerformance_def)
  done


lemma qsa_parsed:
  "parseSelector s = Some sels \<Longrightarrow>
   querySelectorAll doc s = Inr (filter (selectorMatches sels) (allElements doc))"
  by (simp add: querySelectorAll_def)

lemma querySelector_parsed:
  "parseSelector s = Some sels \<Longrightarrow> \<exists>r. querySelector doc s = Inr r"
  by (simp add: querySelector_def qsa_parsed split: list.splits)

lemma qsa_total: "\<exists>sels. parseSelector s = Some sels \<Longrightarrow> \<exists>r. querySelectorAll doc s = Inr r"
  by (auto simp: qsa_parsed)

lemma firstOf_total:
  assumes "\<exists>sels. parseSelector a = Some sels" "\<exists>sels. parseSelector b = Some sels"
  shows "\<exists>r. firstOf doc a b = Inr r"
proof -
  from assms obtain sa sb where "parseSelector a = Some sa" "parseSelector b = Some sb" by blast
  from querySelector_parsed[OF this(1), of doc] querySelector_parsed[OF this(2), of doc]
  show ?thesis by (auto simp: firstOf_def split: option.splits)
qed

lemma landmarks_parse:
  \<open>\<exists>s. parseSelector ''header'' = Some s\<close> \<open>\<exists>s. parseSelector ''[role="banner"]'' = Some s\<close>
  \<open>\<exists>s. parseSelector ''nav'' = Some s\<close> \<open>\<exists>s. parseSelector ''[role="navigation"]'' = Some s\<close>
  \<open>\<exists>s. parseSelector ''main'' = Some s\<close> \<open>\<exists>s. parseSelector ''[role="main"]'' = Some s\<close>
  \<open>\<exists>s. parseSelector ''aside'' = Some s\<close> \<open>\<exists>s. parseSelector ''[role="complementary"]'' = Some s\<close>
  \<open>\<exists>s. parseSelector ''footer'' = Some s\<close> \<open>\<exists>s. parseSelector ''[role="contentinfo"]'' = Some s\<close>
  \<open>\<exists>s. parseSelector ''[style*="grid"], [class*="grid"]'' = Some s\<close>
  \<open>\<exists>s. parseSelector ''[style*="flex"], [class*="flex"]'' = Some s\<close>
  \<open>\<exists>s. parseSelector ''img'' = Some s\<close> \<open>\<exists>s. parseSelector ''link[rel="stylesheet"]'' = Some s\<close>
  \<open>\<exists>s. parseSelector ''script[src]'' = Some s\<close>
  by (simp_all add: parse_defs)

lemma findSections_total: "\<exists>secs. findSections doc landmarkSelectors = Inr secs"
proof -
  obtain r1 where r1: \<open>firstOf doc ''header'' ''[role="banner"]'' = Inr r1\<close>
    using firstOf_total[OF landmarks_parse(1) landmarks_parse(2)] by (rule exE)
  obtain r2 where r2: \<open>firstOf doc ''nav'' ''[role="navigation"]'' = Inr r2\<close>
    using firstOf_total[OF landmarks_parse(3) landmarks_parse(4)] by (rule exE)
  obtain r3 where r3: \<open>firstOf doc ''main'' ''[role="main"]'' = Inr r3\<close>
    using firstOf_total[OF landmarks_parse(5) landmarks_parse(6)] by (rule exE)
  obtain r4 where r4: \<open>firstOf doc ''aside'' ''[role="complementary"]'' = Inr r4\<close>
    using firstOf_total[OF landmarks_parse(7) landmarks_parse(8)] by (rule exE)
  obtain r5 where r5: \<open>firstOf doc ''footer'' ''[role="contentinfo"]'' = Inr r5\<close>
    using firstOf_total[OF landmarks_parse(9) landmarks_parse(10)] by (rule exE)
  show ?thesis by (simp add: landmarkSelectors_def r1 r2 r3 r4 r5)
qed

lemma collectLayoutStructure_total:
  assumes "documentBody (pg_document pg) \<noteq> None"
  shows "\<exists>ly. collectLayoutStructure pg = Inr ly"
proof -
  obtain secs where secs: "findSections (pg_document pg) landmarkSelectors = Inr secs"
    using findSections_total by blast
  obtain g where g: \<open>querySelectorAll (pg_document pg) ''[style*="grid"], [class*="grid"]'' = Inr g\<close>
    using qsa_total[OF landmarks_parse(11)] by (rule exE)
  obtain f where f: \<open>querySelectorAll (pg_document pg) ''[style*="flex"], [class*="flex"]'' = Inr f\<close>
    using qsa_total[OF landmarks_parse(12)] by (rule exE)
  from assms obtain b where b: "documentBody (pg_document pg) = Some b" by blast
  show ?thesis by (simp add: collectLayoutStructure_def Let_def secs g f b)
qed

lemma collectAssets_total: "\<exists>ast. collectAssets doc = Inr ast"
proof -
  obtain a where a: \<open>querySelectorAll doc ''img'' = Inr a\<close>
    using qsa_total[OF landmarks_parse(13)] by (rule exE)
  obtain b where b: \<open>querySelectorAll doc ''link[rel="stylesheet"]'' = Inr b\<close>
    using qsa_total[OF landmarks_parse(14)] by (rule exE)
  obtain c where c: \<open>querySelectorAll doc ''script[src]'' = Inr c\<close>
    using qsa_total[OF landmarks_parse(15)] by (rule exE)
  show ?thesis by (simp add: collectAssets_def a b c qsa_star)
qed


lemma collectMetadata_total:
  assumes "documentBody (pg_document (lp depthTrip)) \<noteq> None"
  shows "\<exists>md. collectMetadata lp url vp lt = Inr md"
  using assms by (auto simp: collectMetadata_def qsa_star domDepth_def)

lemma runCollectors_total:
  assumes "documentBody (pg_document (lp depthTrip)) \<noteq> None"
    and "documentBody (pg_document (lp layoutTrip)) \<noteq> None"
  shows "\<exists>st'. runCollectors lp url vp lt st = (Inr (), st')"
proof -
  obtain md where md: "collectMetadata lp url vp lt = Inr md"
    using collectMetadata_total[where lp = lp, OF assms(1)] by blast
  obtain ly where ly: "collectLayoutStructure (lp layoutTrip) = Inr ly"
    using collectLayoutStructure_total[OF assms(2)] by blast
  obtain ast where ast: "collectAssets (pg_document (lp assetsTrip)) = Inr ast"
    using collectAssets_total by blast
  show ?thesis
    by (simp add: runCollectors_def stage_Inr withResult_def md ly ast collectDesignTokens_eq
        collectElementData_eq)
qed


lemma analyzePage_no_browser:
  "\<not> an_browser st \<Longrightarrow>
   analyzePage e st url vp =
     (Inl nullAccess,
      logLine (''Analyzing '' @ url @ '' at '' @ showNat (vp_width vp) @ ''x'' @ showNat (vp_height vp)) st)"
  by (simp add: analyzePage_def Let_def)

lemma analyzePage_failed_navigation:
  assumes "an_browser st" "env_goto e (an_nextContext st) url vp = Inl err"
  shows "fst (analyzePage e st url vp) = Inl err"
    and "an_analysisData (snd (analyzePage e st url vp)) = an_analysisData st"
  using assms by (simp_all add: analyzePage_def Let_def)

lemma analyzePage_loaded:
  assumes "an_browser st" "env_goto e (an_nextContext st) url vp = Inr lp"
  shows "fst (analyzePage e st url vp) =
           fst (runCollectors lp url vp (env_loadTime e (an_nextContext st))
                 (logLine ''Page loaded, starting analysis...''
                   ((logLine (''Analyzing '' @ url @ '' at '' @ showNat (vp_width vp) @ ''x''
                           @ showNat (vp_height vp)) st)
                     \<lparr>an_openContexts := an_openContexts st @ [an_nextContext st],
                      an_nextContext := Suc (an_nextContext st)\<rparr>)))"
    and "an_analysisData (snd (analyzePage e st url vp)) =
           an_analysisData (snd (runCollectors lp url vp (env_loadTime e (an_nextContext st))
                 (logLine ''Page loaded, starting analysis...''
                   ((logLine (''Analyzing '' @ url @ '' at '' @ showNat (vp_width vp) @ ''x''
                           @ showNat (vp_height vp)) st)
                     \<lparr>an_openContexts := an_openContexts st @ [an_nextContext st],
                      an_nextContext := Suc (an_nextContext st)\<rparr>))))"
  using assms by (simp_all add: analyzePage_def Let_def split: sum.splits)

lemma analyzePage_frame:
  "an_openContexts (snd (analyzePage e st url vp)) =
     (if an_browser st then removeAll (an_nextContext st) (an_openContexts st)
      else an_openContexts st)"
  "an_nextContext (snd (analyzePage e st url vp)) =
     (if an_browser st then Suc (an_nextContext st) else an_nextContext st)"
  "an_browser (snd (analyzePage e st url vp)) = an_browser st"
  "an_files (snd (analyzePage e st url vp)) = an_files st"
  "an_stderr (snd (analyzePage e st url vp)) = an_stderr st"
  "an_dirs (snd (analyzePage e st url vp)) = an_dirs st"
  by (simp_all add: analyzePage_def Let_def runCollectors_frame split: sum.splits)

lemma analyzePage_success:
  assumes "analyzePage e st url vp = (Inr u, st')"
  shows "an_browser st \<and>
         (\<exists>lp md ly tk els ast.
            env_goto e (an_nextContext st) url vp = Inr lp
          \<and> collectMetadata lp url vp (env_loadTime e (an_nextContext st)) = Inr md
          \<and> collectDesignTokens (pg_document (lp tokensTrip)) = Inr tk
          \<and> collectElementData (pg_document (lp elementsTrip)) = Inr els
          \<and> collectLayoutStructure (lp layoutTrip) = Inr ly
          \<and> collectAssets (pg_document (lp assetsTrip)) = Inr ast
          \<and> an_analysisData st' =
              (an_analysisData st)
                \<lparr>ad_metadata := Some (md\<lparr>md_performance := Some (collectPerformanceMetrics (lp performanceTrip))\<rparr>),
                 ad_designTokens := tk, ad_elements := els, ad_layout := Some ly,
                 ad_assets := ast,
                 ad_componentPatterns := identifyComponentPatterns (pg_document (lp patternsTrip))\<rparr>)"
proof -
  have b: "an_browser st"
  proof (rule ccontr)
    assume "\<not> an_browser st"
    from analyzePage_no_browser[OF this, of e url vp] assms show False by simp
  qed
  obtain lp where pg: "env_goto e (an_nextContext st) url vp = Inr lp"
  proof (cases "env_goto e (an_nextContext st) url vp")
    case (Inl err)
    from analyzePage_failed_navigation(1)[OF b Inl] assms show ?thesis by simp
  next
    case (Inr lp)
    then show ?thesis by (rule that)
  qed
  let ?in = "logLine ''Page loaded, starting analysis...''
                   ((logLine (''Analyzing '' @ url @ '' at '' @ showNat (vp_width vp) @ ''x''
                           @ showNat (vp_height vp)) st)
                     \<lparr>an_openContexts := an_openContexts st @ [an_nextContext st],
                      an_nextContext := Suc (an_nextContext st)\<rparr>)"
  let ?rc = "runCollectors lp url vp (env_loadTime e (an_nextContext st)) ?in"
  from analyzePage_loaded[OF b pg] assms
  have "fst ?rc = Inr u" "an_analysisData st' = an_analysisData (snd ?rc)" by simp_all
  then have rc: "?rc = (Inr u, snd ?rc)" by (metis prod.collapse)
  from runCollectors_success[OF rc] \<open>an_analysisData st' = an_analysisData (snd ?rc)\<close> b pg
  show ?thesis by auto
qed

lemma analyzePage_total:
  assumes "an_browser st" "env_goto e (an_nextContext st) url vp = Inr lp"
    "documentBody (pg_document (lp depthTrip)) \<noteq> None"
    "documentBody (pg_document (lp layoutTrip)) \<noteq> None"
  shows "\<exists>st'. analyzePage e st url vp = (Inr (), st')"
proof -
  from runCollectors_total[where lp = lp, OF assms(3,4)] analyzePage_loaded(1)[OF assms(1,2)]
  have "fst (analyzePage e st url vp) = Inr ()" by (metis fst_conv)
  then show ?thesis by (metis prod.collapse)
qed



lemma twoBtn_body: "documentBody twoBtnPage \<noteq> None"
  by (simp add: twoBtnPage_def pageOf_def allElements_def element_defs)

lemma twoBtn_length: "length (allElements twoBtnPage) = 5"
  by (simp add: twoBtnPage_def pageOf_def allElements_def)

lemma reachable_goto: "env_goto reachableEnv ctx url vp = Inr (\<lambda>trip. loadedPage twoBtnPage)"
  by (simp add: reachableEnv_def)

lemma loadedPage_document: "pg_document (loadedPage doc) = doc"
  by (simp add: loadedPage_def)

lemma reachable_analyzePage:
  assumes "an_browser st"
  shows "\<exists>st'. analyzePage reachableEnv st url vp = (Inr (), st')"
  using assms reachable_goto
  by (rule analyzePage_total) (simp_all add: loadedPage_document twoBtn_body)



lemma responsiveLoop_frame_conj:
  "an_files (snd (responsiveLoop e url vps rd st)) = an_files st
   \<and> an_browser (snd (responsiveLoop e url vps rd st)) = an_browser st
   \<and> (an_openContexts st = [] \<longrightarrow> an_openContexts (snd (responsiveLoop e url vps rd st)) = [])"
proof (induction vps arbitrary: rd st)
  case Nil
  show ?case by simp
next
  case (Cons vp vps)
  let ?a = "analyzePage e (logLine (''Testing '' @ viewportName vp @ '' viewport...'') st) url vp"
  obtain r s1 where a: "?a = (r, s1)" by (cases ?a)
  have f: "an_files s1 = an_files st" "an_browser s1 = an_browser st"
    and o: "an_openContexts st = [] \<Longrightarrow> an_openContexts s1 = []"
    using analyzePage_frame(1,3,4)[of e "logLine (''Testing '' @ viewportName vp @ '' viewport...'') st" url vp, unfolded a]
    by simp_all
  show ?case
  proof (cases r)
    case (Inl err)
    then show ?thesis unfolding responsiveLoop.simps a using f o by simp
  next
    case (Inr u)
    then show ?thesis unfolding responsiveLoop.simps a using f o Cons.IH by simp
  qed
qed

lemmas responsiveLoop_frame =
  responsiveLoop_frame_conj[THEN conjunct1]
  responsiveLoop_frame_conj[THEN conjunct2, THEN conjunct1]
  responsiveLoop_frame_conj[THEN conjunct2, THEN conjunct2, rule_format]

lemma responsiveLoop_step:
  assumes "responsiveLoop e url (vp # vps) rd st = (Inr rd', st')"
  shows "\<exists>s1. analyzePage e (logLine (''Testing '' @ viewportName vp @ '' viewport...'') st) url vp
                 = (Inr (), s1)
            \<and> responsiveLoop e url vps
                 (AList.update (viewportName vp)
                    \<lparr>re_viewport = vp,
                     re_elementCount = length (ad_elements (an_analysisData s1)),
                     re_layoutStructure = ad_layout (an_analysisData s1),
                     re_designTokens = ad_designTokens (an_analysisData s1)\<rparr>
                    rd)
                 s1 = (Inr rd', st')"
proof -
  let ?a = "analyzePage e (logLine (''Testing '' @ viewportName vp @ '' viewport...'') st) url vp"
  obtain r s1 where a: "?a = (r, s1)" by (cases ?a)
  show ?thesis
  proof (cases r)
    case (Inl err)
    with assms[unfolded responsiveLoop.simps a] show ?thesis by simp
  next
    case (Inr u)
    with assms[unfolded responsiveLoop.simps a] show ?thesis unfolding a by simp
  qed
qed

lemma responsiveLoop_navigations:
  assumes "responsiveLoop e url vps rd st = (Inr rd', st')" "k < length vps"
  shows "\<exists>lp. env_goto e (an_nextContext st + k) url (vps ! k) = Inr lp"
  using assms
proof (induction vps arbitrary: rd st k)
  case Nil
  then show ?case by simp
next
  case (Cons vp vps)
  from responsiveLoop_step[OF Cons.prems(1)] obtain s1 where
    a: "analyzePage e (logLine (''Testing '' @ viewportName vp @ '' viewport...'') st) url vp = (Inr (), s1)"
    and l: "responsiveLoop e url vps
                 (AList.update (viewportName vp)
                    \<lparr>re_viewport = vp,
                     re_elementCount = length (ad_elements (an_analysisData s1)),
                     re_layoutStructure = ad_layout (an_analysisData s1),
                     re_designTokens = ad_designTokens (an_analysisData s1)\<rparr>
                    rd)
                 s1 = (Inr rd', st')" by blast
  from analyzePage_success[OF a] obtain lp where
    b: "an_browser st" and pg: "env_goto e (an_nextContext st) url vp = Inr lp" by auto
  have n: "an_nextContext s1 = Suc (an_nextContext st)"
    using analyzePage_frame(2)[of e "logLine (''Testing '' @ viewportName vp @ '' viewport...'') st" url vp, unfolded a] b
    by simp
  show ?case
  proof (cases k)
    case 0
    with pg show ?thesis by simp
  next
    case (Suc k')
    with Cons.prems(2) have "k' < length vps" by simp
    from Cons.IH[OF l this] show ?thesis by (simp add: n Suc)
  qed
qed

lemma analyzeResponsive_frame:
  "an_files (snd (analyzeResponsive e st url)) = an_files st"
  "an_browser (snd (analyzeResponsive e st url)) = an_browser st"
  "an_openContexts st = [] \<Longrightarrow> an_openContexts (snd (analyzeResponsive e st url)) = []"
proof -
  let ?l = "responsiveLoop e url defaultViewports [] (logLine ''Analyzing responsive behavior...'' st)"
  obtain r s1 where l: "?l = (r, s1)" by (cases ?l)
  have f: "an_files s1 = an_files st" "an_browser s1 = an_browser st"
    and o: "an_openContexts st = [] \<Longrightarrow> an_openContexts s1 = []"
    using responsiveLoop_frame[where e = e and url = url and vps = defaultViewports and rd = "[]"
        and st = "logLine ''Analyzing responsive behavior...'' st", unfolded l]
    by simp_all
  show "an_files (snd (analyzeResponsive e st url)) = an_files st"
    unfolding analyzeResponsive_def l by (cases r) (simp_all add: f)
  show "an_browser (snd (analyzeResponsive e st url)) = an_browser st"
    unfolding analyzeResponsive_def l by (cases r) (simp_all add: f)
  show "an_openContexts st = [] \<Longrightarrow> an_openContexts (snd (analyzeResponsive e st url)) = []"
    unfolding analyzeResponsive_def l by (cases r) (simp_all add: o)
qed

lemma analyzeResponsive_loop:
  assumes "analyzeResponsive e st url = (Inr u, st')"
  shows "\<exists>rd s. responsiveLoop e url defaultViewports []
                   (logLine ''Analyzing responsive behavior...'' st) = (Inr rd, s)
               \<and> ad_responsive (an_analysisData st') = rd"
proof -
  let ?l = "responsiveLoop e url defaultViewports [] (logLine ''Analyzing responsive behavior...'' st)"
  obtain r s1 where l: "?l = (r, s1)" by (cases ?l)
  show ?thesis
  proof (cases r)
    case (Inl err)
    with assms[unfolded analyzeResponsive_def l] show ?thesis by simp
  next
    case (Inr rd)
    with assms[unfolded analyzeResponsive_def l] show ?thesis unfolding l by auto
  qed
qed

lemma saveResults_failure:
  "fst (saveResults e st f) = Inl err \<Longrightarrow> snd (saveResults e st f) = st"
  by (auto simp: saveResults_def Let_def split: option.splits sum.splits if_splits prod.splits)

lemma saveResults_contexts:
  "an_openContexts (snd (saveResults e st f)) = an_openContexts st"
  by (auto simp: saveResults_def Let_def split: option.splits sum.splits if_splits prod.splits)


lemma initialize_frame:
  "an_files (snd (initialize e st)) = an_files st"
  "an_openContexts (snd (initialize e st)) = an_openContexts st"
  "an_nextContext (snd (initialize e st)) = an_nextContext st"
  "fst (initialize e st) = Inr u \<Longrightarrow> an_browser (snd (initialize e st))"
  by (simp_all add: initialize_def Let_def split: option.splits)

lemma seq_alt:
  "(case p of (Inl err, s) \<Rightarrow> (Inl err, s) | (Inr u, s) \<Rightarrow> g u s) =
   (case fst p of Inl err \<Rightarrow> (Inl err, snd p) | Inr u \<Rightarrow> g u (snd p))"
  by (cases p; cases "fst p") auto

lemma mainBody_alt:
  "mainBody e st url =
     (case fst (initialize e st) of
        Inl err \<Rightarrow> (Inl err, snd (initialize e st))
      | Inr u \<Rightarrow>
          (case fst (analyzePage e (snd (initialize e st)) url desktopViewport) of
             Inl err \<Rightarrow> (Inl err, snd (analyzePage e (snd (initialize e st)) url desktopViewport))
           | Inr u \<Rightarrow>
               (case fst (analyzeResponsive e
                            (snd (analyzePage e (snd (initialize e st)) url desktopViewport)) url) of
                  Inl err \<Rightarrow>
                    (Inl err,
                     snd (analyzeResponsive e
                            (snd (analyzePage e (snd (initialize e st)) url desktopViewport)) url))
                | Inr u \<Rightarrow>
                    (case fst (saveResults e
                                 (snd (analyzeResponsive e
                                         (snd (analyzePage e (snd (initialize e st)) url
                                                 desktopViewport)) url)) None) of
                       Inl err \<Rightarrow>
                         (Inl err,
                          snd (saveResults e
                                 (snd (analyzeResponsive e
                                         (snd (analyzePage e (snd (initialize e st)) url
                                                 desktopViewport)) url)) None))
                     | Inr outputFile \<Rightarrow>
                         (Inr (),
                          logLine (CHR 0x0A # ''Analysis complete! Results saved to: '' @ outputFile)
                            (snd (saveResults e
                                    (snd (analyzeResponsive e
                                            (snd (analyzePage e (snd (initialize e st)) url
                                                    desktopViewport)) url)) None)))))))"
  by (simp only: mainBody_def seq_alt)

lemma initial_fields:
  "an_files initialAnalyzer = []" "an_openContexts initialAnalyzer = []"
  "an_nextContext initialAnalyzer = 0"
  by (simp_all add: initialAnalyzer_def)

lemma mainBody_contexts: "an_openContexts (snd (mainBody e initialAnalyzer url)) = []"
  by (simp add: mainBody_alt saveResults_contexts analyzeResponsive_frame(3) analyzePage_frame(1)
      initialize_frame initial_fields split: sum.splits)

lemma mainBody_failure_files:
  "fst (mainBody e initialAnalyzer url) = Inl err \<Longrightarrow>
   an_files (snd (mainBody e initialAnalyzer url)) = []"
  by (simp add: mainBody_alt saveResults_failure analyzeResponsive_frame(1) analyzePage_frame(4)
      initialize_frame initial_fields split: sum.splits)

lemma fst_pair: "fst p = r \<Longrightarrow> p = (r, snd p)"
  by (cases p) simp

lemma mainBody_success_navigations:
  assumes "fst (mainBody e initialAnalyzer url) = Inr u" "k < 4"
  shows "\<exists>lp. env_goto e k url (mainViewports ! k) = Inr lp"
proof -
  let ?s1 = "snd (initialize e initialAnalyzer)"
  let ?A = "analyzePage e ?s1 url desktopViewport"
  let ?R = "analyzeResponsive e (snd ?A) url"
  from assms(1) have i: "fst (initialize e initialAnalyzer) = Inr ()"
    and a: "fst ?A = Inr ()" and r: "fst ?R = Inr ()"
    by (simp_all add: mainBody_alt split: sum.splits)
  have b: "an_browser ?s1" using i by (rule initialize_frame(4))
  have n1: "an_nextContext ?s1 = 0" by (simp add: initialize_frame initial_fields)
  from analyzePage_success[OF fst_pair[OF a]] obtain lp where
    pg: "env_goto e 0 url desktopViewport = Inr lp" unfolding n1 by blast
  have n2: "an_nextContext (snd ?A) = Suc 0" using b by (simp add: analyzePage_frame(2) n1)
  from analyzeResponsive_loop[OF fst_pair[OF r]] obtain rd s where
    l: "responsiveLoop e url defaultViewports []
          (logLine ''Analyzing responsive behavior...'' (snd ?A)) = (Inr rd, s)" by blast
  have nav: "\<exists>lp. env_goto e (Suc j) url (defaultViewports ! j) = Inr lp"
    if "j < length defaultViewports" for j
    using responsiveLoop_navigations[OF l that] by (simp add: n2)
  show ?thesis
  proof (cases k)
    case 0
    with pg show ?thesis by (simp add: mainViewports_def)
  next
    case (Suc j)
    with assms(2) have "j < length defaultViewports" by (simp add: defaultViewports_def)
    from nav[OF this] Suc show ?thesis by (simp add: mainViewports_def)
  qed
qed

lemma main_url:
  "url \<noteq> [] \<Longrightarrow>
   main e (Some url) =
     (case fst (mainBody e initialAnalyzer url) of
        Inl err \<Rightarrow>
          (1, (snd (mainBody e initialAnalyzer url))
                \<lparr>an_stderr := an_stderr (snd (mainBody e initialAnalyzer url))
                                @ [''Analysis failed: '' @ errorMessage err]\<rparr>)
      | Inr u \<Rightarrow> (0, close (snd (mainBody e initialAnalyzer url))))"
  unfolding main_def by (simp add: truthy_def split: prod.splits sum.splits)

text \<open>
  Claim C8. The browsing context that \<open>analyzePage\<close> creates is closed when it returns,
  whether it succeeds or fails: afterwards the open contexts are the ones open before,
  without the new one. When the navigation fails, \<open>analyzePage\<close> returns that error and
  leaves the analysis data and the files untouched. In \<open>main\<close>, when any of the four
  navigations (the primary pass and the three responsive passes) fails, the process
  exits with code 1, no output document has been written and no browsing context is
  left open.
\<close>

theorem navigation_failure_aborts:
  "an_openContexts (snd (analyzePage e st url vp)) =
     (if an_browser st then removeAll (an_nextContext st) (an_openContexts st)
      else an_openContexts st)
   \<and> (an_browser st \<and> env_goto e (an_nextContext st) url vp = Inl err \<longrightarrow>
        fst (analyzePage e st url vp) = Inl err
        \<and> an_analysisData (snd (analyzePage e st url vp)) = an_analysisData st
        \<and> an_files (snd (analyzePage e st url vp)) = an_files st)
   \<and> (url \<noteq> [] \<and> k < 4 \<and> env_goto e k url (mainViewports ! k) = Inl err \<longrightarrow>
        fst (main e (Some url)) = 1
        \<and> an_files (snd (main e (Some url))) = []
        \<and> an_openContexts (snd (main e (Some url))) = [])"
proof (intro conjI impI)
  show "an_openContexts (snd (analyzePage e st url vp)) =
     (if an_browser st then removeAll (an_nextContext st) (an_openContexts st)
      else an_openContexts st)"
    by (rule analyzePage_frame(1))
next
  assume a: "an_browser st \<and> env_goto e (an_nextContext st) url vp = Inl err"
  then show "fst (analyzePage e st url vp) = Inl err"
    and "an_analysisData (snd (analyzePage e st url vp)) = an_analysisData st"
    by (simp_all add: analyzePage_failed_navigation)
  show "an_files (snd (analyzePage e st url vp)) = an_files st" by (rule analyzePage_frame(4))
next
  assume a: "url \<noteq> [] \<and> k < 4 \<and> env_goto e k url (mainViewports ! k) = Inl err"
  obtain err' where f: "fst (mainBody e initialAnalyzer url) = Inl err'"
  proof (cases "fst (mainBody e initialAnalyzer url)")
    case (Inl err')
    then show ?thesis by (rule that)
  next
    case (Inr u)
    from mainBody_success_navigations[OF Inr, of k] a show ?thesis by auto
  qed
  from a have m: "main e (Some url) =
      (1, (snd (mainBody e initialAnalyzer url))
                \<lparr>an_stderr := an_stderr (snd (mainBody e initialAnalyzer url))
                                @ [''Analysis failed: '' @ errorMessage err']\<rparr>)"
    by (simp add: main_url f)
  show "fst (main e (Some url)) = 1" unfolding m by simp
  show "an_files (snd (main e (Some url))) = []"
    unfolding m using mainBody_failure_files[OF f] by simp
  show "an_openContexts (snd (main e (Some url))) = []"
    unfolding m using mainBody_contexts[of e url] by simp
qed


text \<open>With an unreachable host: the first navigation fails, \<open>main\<close> exits with code 1
  and writes nothing, and the context of the failed pass is closed.\<close>

theorem navigation_failure_aborts_witness:
  "fst (main unreachableEnv (Some ''https://unreachable.example'')) = 1
   \<and> an_files (snd (main unreachableEnv (Some ''https://unreachable.example''))) = []
   \<and> an_openContexts (snd (main unreachableEnv (Some ''https://unreachable.example''))) = []
   \<and> fst (analyzePage unreachableEnv launchedAnalyzer ''https://unreachable.example''
             desktopViewport) = Inl (NavigationError ''net::ERR_NAME_NOT_RESOLVED'')
   \<and> an_openContexts (snd (analyzePage unreachableEnv launchedAnalyzer
             ''https://unreachable.example'' desktopViewport)) = []"
proof -
  let ?u = "''https://unreachable.example''"
  let ?err = "NavigationError ''net::ERR_NAME_NOT_RESOLVED''"
  note t = navigation_failure_aborts[where e = unreachableEnv and st = launchedAnalyzer
      and url = ?u and vp = desktopViewport and err = ?err and k = 0]
  have g: "env_goto unreachableEnv c ?u v = Inl ?err" for c v
    by (simp add: unreachableEnv_def reachableEnv_def)
  have b: "an_browser launchedAnalyzer" "an_openContexts launchedAnalyzer = []"
    by (simp_all add: launchedAnalyzer_def initialAnalyzer_def)
  have u: "?u \<noteq> []" by simp
  have 1: "an_openContexts (snd (analyzePage unreachableEnv launchedAnalyzer ?u desktopViewport)) = []"
    using t[THEN conjunct1] by (simp add: b)
  have 2: "fst (analyzePage unreachableEnv launchedAnalyzer ?u desktopViewport) = Inl ?err"
    by (rule t[THEN conjunct2, THEN conjunct1, THEN mp, THEN conjunct1]) (simp add: b g)
  have 3: "fst (main unreachableEnv (Some ?u)) = 1
        \<and> an_files (snd (main unreachableEnv (Some ?u))) = []
        \<and> an_openContexts (snd (main unreachableEnv (Some ?u))) = []"
    by (rule t[THEN conjunct2, THEN conjunct2, THEN mp]) (simp add: g)
  from 1 2 3 show ?thesis by (intro conjI) simp_all
qed

lemma analyzePage_pass:
  assumes "analyzePage e st url vp = (Inr u, st')"
  shows "an_browser st' \<and> an_nextContext st' = Suc (an_nextContext st) \<and>
         (\<exists>lp ly tk.
            env_goto e (an_nextContext st) url vp = Inr lp
          \<and> collectLayoutStructure (lp layoutTrip) = Inr ly
          \<and> collectDesignTokens (pg_document (lp tokensTrip)) = Inr tk
          \<and> length (ad_elements (an_analysisData st'))
              = length (allElements (pg_document (lp elementsTrip)))
          \<and> ad_layout (an_analysisData st') = Some ly
          \<and> ad_designTokens (an_analysisData st') = tk)"
proof -
  from analyzePage_success[OF assms] obtain lp md ly tk els ast where
    b: "an_browser st"
    and pg: "env_goto e (an_nextContext st) url vp = Inr lp"
    and tk: "collectDesignTokens (pg_document (lp tokensTrip)) = Inr tk"
    and els: "collectElementData (pg_document (lp elementsTrip)) = Inr els"
    and ly: "collectLayoutStructure (lp layoutTrip) = Inr ly"
    and d: "an_analysisData st' =
              (an_analysisData st)
                \<lparr>ad_metadata := Some (md\<lparr>md_performance := Some (collectPerformanceMetrics (lp performanceTrip))\<rparr>),
                 ad_designTokens := tk, ad_elements := els, ad_layout := Some ly,
                 ad_assets := ast,
                 ad_componentPatterns := identifyComponentPatterns (pg_document (lp patternsTrip))\<rparr>"
    by blast
  have l: "length els = length (allElements (pg_document (lp elementsTrip)))"
    using els by (auto simp: collectElementData_eq)
  have f: "an_browser st'" "an_nextContext st' = Suc (an_nextContext st)"
    using analyzePage_frame(2,3)[of e st url vp, unfolded assms] b by simp_all
  show ?thesis
    using f by (intro conjI exI[of _ lp] exI[of _ ly] exI[of _ tk]) (simp_all add: pg ly tk d l)
qed

text \<open>
  Claim C9. When the responsive pass succeeds, the three navigations, in three
  successive browsing contexts, had loaded a page each, and the responsive map has
  exactly the keys \<open>mobile\<close>, \<open>tablet\<close> and \<open>desktop\<close>, in this order. The value under each
  key holds the requested viewport (name, width and height), the number of elements of
  that viewport's page, that page's layout structure and that page's design tokens, and
  nothing else: a responsive entry has no field for elements, assets or patterns.
\<close>

theorem responsive_map_reduced:
  assumes "analyzeResponsive e st url = (Inr u, st')"
  shows "\<exists>lp1 lp2 lp3 ly1 ly2 ly3 tk1 tk2 tk3.
      env_goto e (an_nextContext st) url
        \<lparr>vp_name = Some ''mobile'', vp_width = 375, vp_height = 667\<rparr> = Inr lp1
    \<and> env_goto e (Suc (an_nextContext st)) url
        \<lparr>vp_name = Some ''tablet'', vp_width = 768, vp_height = 1024\<rparr> = Inr lp2
    \<and> env_goto e (Suc (Suc (an_nextContext st))) url
        \<lparr>vp_name = Some ''desktop'', vp_width = 1920, vp_height = 1080\<rparr> = Inr lp3
    \<and> collectLayoutStructure (lp1 layoutTrip) = Inr ly1 \<and> collectDesignTokens (pg_document (lp1 tokensTrip)) = Inr tk1
    \<and> collectLayoutStructure (lp2 layoutTrip) = Inr ly2 \<and> collectDesignTokens (pg_document (lp2 tokensTrip)) = Inr tk2
    \<and> collectLayoutStructure (lp3 layoutTrip) = Inr ly3 \<and> collectDesignTokens (pg_document (lp3 tokensTrip)) = Inr tk3
    \<and> ad_responsive (an_analysisData st') =
        [(''mobile'',
          \<lparr>re_viewport = \<lparr>vp_name = Some ''mobile'', vp_width = 375, vp_height = 667\<rparr>,
           re_elementCount = length (allElements (pg_document (lp1 elementsTrip))),
           re_layoutStructure = Some ly1, re_designTokens = tk1\<rparr>),
         (''tablet'',
          \<lparr>re_viewport = \<lparr>vp_name = Some ''tablet'', vp_width = 768, vp_height = 1024\<rparr>,
           re_elementCount = length (allElements (pg_document (lp2 elementsTrip))),
           re_layoutStructure = Some ly2, re_designTokens = tk2\<rparr>),
         (''desktop'',
          \<lparr>re_viewport = \<lparr>vp_name = Some ''desktop'', vp_width = 1920, vp_height = 1080\<rparr>,
           re_elementCount = length (allElements (pg_document (lp3 elementsTrip))),
           re_layoutStructure = Some ly3, re_designTokens = tk3\<rparr>)]"
proof -
  let ?m = "\<lparr>vp_name = Some ''mobile'', vp_width = 375, vp_height = 667\<rparr>"
  let ?t = "\<lparr>vp_name = Some ''tablet'', vp_width = 768, vp_height = 1024\<rparr>"
  let ?d = "\<lparr>vp_name = Some ''desktop'', vp_width = 1920, vp_height = 1080\<rparr>"
  let ?s0 = "logLine ''Analyzing responsive behavior...'' st"
  from analyzeResponsive_loop[OF assms] obtain rd s where
    l0: "responsiveLoop e url [?m, ?t, ?d] [] ?s0 = (Inr rd, s)"
    and rd: "ad_responsive (an_analysisData st') = rd"
    unfolding defaultViewports_def by blast
  from responsiveLoop_step[OF l0] obtain s1 where
    a1: "analyzePage e (logLine (''Testing '' @ viewportName ?m @ '' viewport...'') ?s0) url ?m
           = (Inr (), s1)"
    and l1: "responsiveLoop e url [?t, ?d]
               (AList.update (viewportName ?m)
                  \<lparr>re_viewport = ?m, re_elementCount = length (ad_elements (an_analysisData s1)),
                   re_layoutStructure = ad_layout (an_analysisData s1),
                   re_designTokens = ad_designTokens (an_analysisData s1)\<rparr> [])
               s1 = (Inr rd, s)" by blast
  from responsiveLoop_step[OF l1] obtain s2 where
    a2: "analyzePage e (logLine (''Testing '' @ viewportName ?t @ '' viewport...'') s1) url ?t
           = (Inr (), s2)"
    and l2: "responsiveLoop e url [?d]
               (AList.update (viewportName ?t)
                  \<lparr>re_viewport = ?t, re_elementCount = length (ad_elements (an_analysisData s2)),
                   re_layoutStructure = ad_layout (an_analysisData s2),
                   re_designTokens = ad_designTokens (an_analysisData s2)\<rparr>
                  (AList.update (viewportName ?m)
                     \<lparr>re_viewport = ?m, re_elementCount = length (ad_elements (an_analysisData s1)),
                      re_layoutStructure = ad_layout (an_analysisData s1),
                      re_designTokens = ad_designTokens (an_analysisData s1)\<rparr> []))
               s2 = (Inr rd, s)" by blast
  from responsiveLoop_step[OF l2] obtain s3 where
    a3: "analyzePage e (logLine (''Testing '' @ viewportName ?d @ '' viewport...'') s2) url ?d
           = (Inr (), s3)"
    and l3: "responsiveLoop e url []
               (AList.update (viewportName ?d)
                  \<lparr>re_viewport = ?d, re_elementCount = length (ad_elements (an_analysisData s3)),
                   re_layoutStructure = ad_layout (an_analysisData s3),
                   re_designTokens = ad_designTokens (an_analysisData s3)\<rparr>
               (AList.update (viewportName ?t)
                  \<lparr>re_viewport = ?t, re_elementCount = length (ad_elements (an_analysisData s2)),
                   re_layoutStructure = ad_layout (an_analysisData s2),
                   re_designTokens = ad_designTokens (an_analysisData s2)\<rparr>
                  (AList.update (viewportName ?m)
                     \<lparr>re_viewport = ?m, re_elementCount = length (ad_elements (an_analysisData s1)),
                      re_layoutStructure = ad_layout (an_analysisData s1),
                      re_designTokens = ad_designTokens (an_analysisData s1)\<rparr> [])))
               s3 = (Inr rd, s)" by blast
  from analyzePage_pass[OF a1] obtain lp1 ly1 tk1 where
    p1: "an_nextContext s1 = Suc (an_nextContext st)"
      "env_goto e (an_nextContext st) url ?m = Inr lp1"
      "collectLayoutStructure (lp1 layoutTrip) = Inr ly1" "collectDesignTokens (pg_document (lp1 tokensTrip)) = Inr tk1"
      "length (ad_elements (an_analysisData s1)) = length (allElements (pg_document (lp1 elementsTrip)))"
      "ad_layout (an_analysisData s1) = Some ly1" "ad_designTokens (an_analysisData s1) = tk1"
    by auto
  from analyzePage_pass[OF a2] obtain lp2 ly2 tk2 where
    p2: "an_nextContext s2 = Suc (Suc (an_nextContext st))"
      "env_goto e (Suc (an_nextContext st)) url ?t = Inr lp2"
      "collectLayoutStructure (lp2 layoutTrip) = Inr ly2" "collectDesignTokens (pg_document (lp2 tokensTrip)) = Inr tk2"
      "length (ad_elements (an_analysisData s2)) = length (allElements (pg_document (lp2 elementsTrip)))"
      "ad_layout (an_analysisData s2) = Some ly2" "ad_designTokens (an_analysisData s2) = tk2"
    by (auto simp: p1(1))
  from analyzePage_pass[OF a3] obtain lp3 ly3 tk3 where
    p3: "env_goto e (Suc (Suc (an_nextContext st))) url ?d = Inr lp3"
      "collectLayoutStructure (lp3 layoutTrip) = Inr ly3" "collectDesignTokens (pg_document (lp3 tokensTrip)) = Inr tk3"
      "length (ad_elements (an_analysisData s3)) = length (allElements (pg_document (lp3 elementsTrip)))"
      "ad_layout (an_analysisData s3) = Some ly3" "ad_designTokens (an_analysisData s3) = tk3"
    by (auto simp: p2(1))
  have n: "viewportName ?m = ''mobile''" "viewportName ?t = ''tablet''"
    "viewportName ?d = ''desktop''" by (simp_all add: viewportName_def)
  from l3 have "rd =
        [(''mobile'',
          \<lparr>re_viewport = ?m, re_elementCount = length (allElements (pg_document (lp1 elementsTrip))),
           re_layoutStructure = Some ly1, re_designTokens = tk1\<rparr>),
         (''tablet'',
          \<lparr>re_viewport = ?t, re_elementCount = length (allElements (pg_document (lp2 elementsTrip))),
           re_layoutStructure = Some ly2, re_designTokens = tk2\<rparr>),
         (''desktop'',
          \<lparr>re_viewport = ?d, re_elementCount = length (allElements (pg_document (lp3 elementsTrip))),
           re_layoutStructure = Some ly3, re_designTokens = tk3\<rparr>)]"
    unfolding n p1(5,6,7) p2(5,6,7) p3(4,5,6) by simp
  with rd p1(2,3,4) p2(2,3,4) p3(1,2,3) show ?thesis by blast
qed


lemma reachable_loop:
  "an_browser st \<Longrightarrow> \<exists>rd' s. responsiveLoop reachableEnv url vps rd st = (Inr rd', s)"
proof (induction vps arbitrary: rd st)
  case Nil
  show ?case by simp
next
  case (Cons vp vps)
  let ?s0 = "logLine (''Testing '' @ viewportName vp @ '' viewport...'') st"
  from Cons.prems have "an_browser ?s0" by simp
  from reachable_analyzePage[OF this] obtain s1 where
    a: "analyzePage reachableEnv ?s0 url vp = (Inr (), s1)" by blast
  have "an_browser s1"
    using analyzePage_frame(3)[of reachableEnv ?s0 url vp, unfolded a] Cons.prems by simp
  from Cons.IH[OF this] show ?case unfolding responsiveLoop.simps a by simp
qed

lemma reachable_analyzeResponsive:
  assumes "an_browser st"
  shows "\<exists>st'. analyzeResponsive reachableEnv st url = (Inr (), st')"
proof -
  from assms have "an_browser (logLine ''Analyzing responsive behavior...'' st)" by simp
  from reachable_loop[OF this] obtain rd s where
    "responsiveLoop reachableEnv url defaultViewports []
       (logLine ''Analyzing responsive behavior...'' st) = (Inr rd, s)" by blast
  then show ?thesis unfolding analyzeResponsive_def by simp
qed

text \<open>With a launched browser and the two-button page behind every URL: the three
  keys, each with its viewport's width and height and an element count of five.\<close>

theorem responsive_map_reduced_witness:
  "\<exists>st'. analyzeResponsive reachableEnv launchedAnalyzer ''https://example.com'' = (Inr (), st')
     \<and> map fst (ad_responsive (an_analysisData st')) = [''mobile'', ''tablet'', ''desktop'']
     \<and> map (\<lambda>nr. (vp_width (re_viewport (snd nr)), vp_height (re_viewport (snd nr)),
                   re_elementCount (snd nr)))
          (ad_responsive (an_analysisData st'))
        = [(375, 667, 5), (768, 1024, 5), (1920, 1080, 5)]"
proof -
  have "an_browser launchedAnalyzer" by (simp add: launchedAnalyzer_def)
  from reachable_analyzeResponsive[OF this] obtain st' where
    a: "analyzeResponsive reachableEnv launchedAnalyzer ''https://example.com'' = (Inr (), st')"
    by blast
  from responsive_map_reduced[OF a] obtain lp1 lp2 lp3 ly1 ly2 ly3 tk1 tk2 tk3 where
    g: "env_goto reachableEnv (an_nextContext launchedAnalyzer) ''https://example.com''
          \<lparr>vp_name = Some ''mobile'', vp_width = 375, vp_height = 667\<rparr> = Inr lp1"
       "env_goto reachableEnv (Suc (an_nextContext launchedAnalyzer)) ''https://example.com''
          \<lparr>vp_name = Some ''tablet'', vp_width = 768, vp_height = 1024\<rparr> = Inr lp2"
       "env_goto reachableEnv (Suc (Suc (an_nextContext launchedAnalyzer))) ''https://example.com''
          \<lparr>vp_name = Some ''desktop'', vp_width = 1920, vp_height = 1080\<rparr> = Inr lp3"
    and r: "ad_responsive (an_analysisData st') =
        [(''mobile'',
          \<lparr>re_viewport = \<lparr>vp_name = Some ''mobile'', vp_width = 375, vp_height = 667\<rparr>,
           re_elementCount = length (allElements (pg_document (lp1 elementsTrip))),
           re_layoutStructure = Some ly1, re_designTokens = tk1\<rparr>),
         (''tablet'',
          \<lparr>re_viewport = \<lparr>vp_name = Some ''tablet'', vp_width = 768, vp_height = 1024\<rparr>,
           re_elementCount = length (allElements (pg_document (lp2 elementsTrip))),
           re_layoutStructure = Some ly2, re_designTokens = tk2\<rparr>),
         (''desktop'',
          \<lparr>re_viewport = \<lparr>vp_name = Some ''desktop'', vp_width = 1920, vp_height = 1080\<rparr>,
           re_elementCount = length (allElements (pg_document (lp3 elementsTrip))),
           re_layoutStructure = Some ly3, re_designTokens = tk3\<rparr>)]"
    by blast
  from g have p: "lp1 = (\<lambda>trip. loadedPage twoBtnPage)" "lp2 = (\<lambda>trip. loadedPage twoBtnPage)"
    "lp3 = (\<lambda>trip. loadedPage twoBtnPage)" by (simp_all add: reachable_goto)
  have "map fst (ad_responsive (an_analysisData st')) = [''mobile'', ''tablet'', ''desktop'']"
    and "map (\<lambda>nr. (vp_width (re_viewport (snd nr)), vp_height (re_viewport (snd nr)),
                   re_elementCount (snd nr)))
          (ad_responsive (an_analysisData st'))
        = [(375, 667, 5), (768, 1024, 5), (1920, 1080, 5)]"
    unfolding r p loadedPage_document twoBtn_length by simp_all
  with a show ?thesis by (intro exI[of _ st'] conjI)
qed

end
